theory Spec2Isabelle
  imports Complex_Main
begin

section \<open>The SOL autotrade bot: data model\<close>

text \<open>
  The program is a single Python file, \<^verbatim>\<open>main.py\<close>. Its numbers are Python floats,
  that is IEEE doubles. A float is modelled by the real number it stands for, and every
  arithmetic operation of the source by the exact operation followed by rounding to the
  nearest double (\<open>rnd\<close> below). Overflow, NaN and the infinities are outside this
  development. What Python raises on the way (a division by zero, a missing dictionary
  key, a failed parse) is a value of type \<open>exn\<close>.
\<close>

datatype exn =
    RuntimeError
  | KeyError
  | TypeError
  | ValueError
  | ZeroDivisionError
  | GatewayError
  | DBError

text \<open>The strategy parameters, read from the environment once at import time.\<close>

record config =
  DIP_PERCENT :: real
  TP_PERCENT :: real
  ORDER_USDT :: real
  MIN_POSITION_USDT :: real
  QTY_STEP :: real

text \<open>
  A field of a JSON answer of the exchange: null, a boolean, a number or a string.
  A dictionary of such fields is a partial map from keys.
\<close>

datatype jval = JNull | JBool bool | JNum real | JStr string

type_synonym pydict = "string \<Rightarrow> jval option"

text \<open>
  An answer of the exchange client: its \<^verbatim>\<open>retCode\<close> (absent is \<open>None\<close>) and the
  entries of \<^verbatim>\<open>resp["result"]["list"]\<close>.
\<close>

record 'a api_resp =
  retCode :: "int option"
  result_list :: "'a list"

text \<open>An account of the wallet answer: its \<^verbatim>\<open>coin\<close> list, when it has one.\<close>

type_synonym acct = "pydict list option"

datatype side = Buy | Sell

text \<open>
  What a tick does to the outside world, in the order it does it: an order handed to
  \<^verbatim>\<open>session.place_order\<close>, a call of \<^verbatim>\<open>set_base_price\<close>, a message handed to
  \<^verbatim>\<open>send_telegram\<close>, an error printed to standard error. The informational prints
  to standard output and the sleep between ticks are left out.
\<close>

datatype notice =
    InitNotice real
  | TakeProfitNotice real real real real
  | InsufficientNotice real real
  | DipBuyNotice real real real real real

datatype errlog = ErrFetch | ErrDbRead | ErrDbWrite | ErrSell | ErrBuy

datatype event =
    PlaceOrder side real
  | StoreWrite real
  | Telegram notice
  | Stderr errlog

text \<open>
  The row of table \<^verbatim>\<open>sol_bot_state\<close> for the symbol: its base price, or no row.
\<close>

type_synonym store = "real option"

text \<open>
  What the collaborators answer during one tick. Every tick makes at most one call of
  each kind. \<open>None\<close> stands for a call that raises.
\<close>

record env =
  tickers :: "pydict api_resp option"
  wallet :: "acct api_resp option"
  db_read_ok :: bool
  db_write_ok :: bool
  order_reply :: "unit api_resp option"

text \<open>
  The result of one pass through the body of the loop of \<^verbatim>\<open>main\<close>: the store and the
  events, and the exception that left the loop, if one did.
\<close>

record outcome =
  new_store :: store
  events :: "event list"
  uncaught :: "exn option"

section \<open>Helper functions\<close>

text \<open>The nearest integer, a tie going to the even one.\<close>

definition round_half_even :: "real \<Rightarrow> int" where
  "round_half_even x =
     (let f = \<lfloor>x\<rfloor>; d = x - of_int f
      in if d < 1 / 2 then f
         else if 1 / 2 < d then f + 1
         else if even f then f else f + 1)"

text \<open>
  Rounding to the nearest double, ties to even. The binary exponent of a double lies
  between \<open>-1022\<close> and \<open>1023\<close>; \<open>fexp x\<close> is the least exponent \<open>e\<close> in that range with
  \<open>\<bar>x\<bar> < 2\<^sup>e\<^sup>+\<^sup>1\<close>, found by counting up from \<open>-1022\<close> (so the subnormal numbers share
  the exponent \<open>-1022\<close>). The doubles with that exponent are the multiples of
  \<open>2\<^sup>e\<^sup>-\<^sup>5\<^sup>2\<close>: 53 significant bits.
\<close>

fun fexp_from :: "nat \<Rightarrow> int \<Rightarrow> real \<Rightarrow> int" where
  "fexp_from 0 e a = e"
| "fexp_from (Suc n) e a = (if a < 2 powi (e + 1) then e else fexp_from n (e + 1) a)"

definition fexp :: "real \<Rightarrow> int" where
  "fexp x = fexp_from 2045 (- 1022) \<bar>x\<bar>"

definition rnd :: "real \<Rightarrow> real" where
  "rnd x = of_int (round_half_even (x / 2 powi (fexp x - 52))) * 2 powi (fexp x - 52)"

text \<open>The four operations on floats. Division by zero is tested where the source divides.\<close>

definition fadd :: "real \<Rightarrow> real \<Rightarrow> real" where
  "fadd x y = rnd (x + y)"

definition fsub :: "real \<Rightarrow> real \<Rightarrow> real" where
  "fsub x y = rnd (x - y)"

definition fmul :: "real \<Rightarrow> real \<Rightarrow> real" where
  "fmul x y = rnd (x * y)"

definition fdiv :: "real \<Rightarrow> real \<Rightarrow> real" where
  "fdiv x y = rnd (x / y)"

text \<open>
  Python's \<^verbatim>\<open>round(x, n)\<close> on a float: the exact value of \<open>x\<close> is rounded to the
  nearest multiple of \<open>10\<^sup>-\<^sup>n\<close>, a tie going to the even one, and the double nearest to
  that decimal is returned.
\<close>

definition py_round :: "real \<Rightarrow> nat \<Rightarrow> real" where
  "py_round x n = rnd (of_int (round_half_even (x * 10 ^ n)) / 10 ^ n)"

text \<open>
  The defaults of the environment variables. \<^verbatim>\<open>float("0.001")\<close> is the double nearest
  to one thousandth; the other four defaults are doubles as they stand.
\<close>

definition default_config :: config where
  "default_config =
     \<lparr>DIP_PERCENT = 5, TP_PERCENT = 4, ORDER_USDT = 25, MIN_POSITION_USDT = 5,
      QTY_STEP = rnd (1 / 1000)\<rparr>"

text \<open>
  \<^verbatim>\<open>quantize_qty\<close>: the step is the global \<^verbatim>\<open>QTY_STEP\<close>; a zero step makes the
  division raise. The quotient is a float before \<^verbatim>\<open>math.floor\<close> sees it, and the
  product of the step count and the step is a float before it is rounded to 6 digits.
\<close>

definition quantize_qty :: "config \<Rightarrow> real \<Rightarrow> exn + real" where
  "quantize_qty cfg qty =
     (if qty \<le> 0 then Inr 0
      else if QTY_STEP cfg = 0 then Inl ZeroDivisionError
      else let steps = \<lfloor>fdiv qty (QTY_STEP cfg)\<rfloor>
           in Inr (py_round (fmul (of_int steps) (QTY_STEP cfg)) 6))"

text \<open>
  \<^verbatim>\<open>str.strip()\<close> on the ASCII range: the characters for which \<^verbatim>\<open>isspace\<close> holds.
\<close>

definition py_isspace :: "char \<Rightarrow> bool" where
  "py_isspace c =
     (c \<in> set [CHR 0x09, CHR 0x0A, CHR 0x0B, CHR 0x0C, CHR 0x0D,
               CHR 0x1C, CHR 0x1D, CHR 0x1E, CHR 0x1F, CHR 0x20])"

definition strip :: "string \<Rightarrow> string" where
  "strip s = rev (dropWhile py_isspace (rev (dropWhile py_isspace s)))"

text \<open>
  The builtin \<^verbatim>\<open>float\<close> on a string is a parameter \<open>pf\<close> of the model: \<open>None\<close> when it
  raises \<^verbatim>\<open>ValueError\<close>. On the other values it is written out.
\<close>

definition py_float :: "(string \<Rightarrow> real option) \<Rightarrow> jval \<Rightarrow> exn + real" where
  "py_float pf v =
     (case v of
        JNull \<Rightarrow> Inl TypeError
      | JBool b \<Rightarrow> Inr (if b then 1 else 0)
      | JNum r \<Rightarrow> Inr r
      | JStr s \<Rightarrow> (case pf s of None \<Rightarrow> Inl ValueError | Some r \<Rightarrow> Inr r))"

definition safe_float :: "(string \<Rightarrow> real option) \<Rightarrow> jval \<Rightarrow> real" where
  "safe_float pf v =
     (case v of
        JNull \<Rightarrow> 0
      | JBool b \<Rightarrow> (if b then 1 else 0)
      | JNum r \<Rightarrow> r
      | JStr s0 \<Rightarrow>
          (let s = strip s0
           in if s = [] then 0
              else (case pf s of None \<Rightarrow> 0 | Some r \<Rightarrow> r)))"

text \<open>\<^verbatim>\<open>d.get(k)\<close>: the value, or \<^verbatim>\<open>None\<close> for a key that is not there.\<close>

definition dict_get :: "pydict \<Rightarrow> string \<Rightarrow> jval" where
  "dict_get d k = (case d k of None \<Rightarrow> JNull | Some v \<Rightarrow> v)"

section \<open>The exchange client\<close>

definition get_spot_price ::
  "(string \<Rightarrow> real option) \<Rightarrow> pydict api_resp option \<Rightarrow> exn + real" where
  "get_spot_price pf r =
     (case r of
        None \<Rightarrow> Inl GatewayError
      | Some resp \<Rightarrow>
          if retCode resp \<noteq> Some 0 then Inl RuntimeError
          else (case result_list resp of
                  [] \<Rightarrow> Inl RuntimeError
                | t # _ \<Rightarrow>
                    (case t ''lastPrice'' of
                       None \<Rightarrow> Inl KeyError
                     | Some v \<Rightarrow> py_float pf v)))"

text \<open>
  The loop over the accounts of \<^verbatim>\<open>get_balances\<close> and, inside it, the one over
  the coins. The pair carried along is
  \<^verbatim>\<open>(sol_total, usdt_available)\<close>; \<^verbatim>\<open>coin["coin"]\<close> raises on an entry without
  that key.
\<close>

fun coin_loop ::
  "(string \<Rightarrow> real option) \<Rightarrow> pydict list \<Rightarrow> real \<times> real \<Rightarrow> exn + real \<times> real" where
  "coin_loop pf [] acc = Inr acc"
| "coin_loop pf (coin # cs) (sol_total, usdt_available) =
     (case coin ''coin'' of
        None \<Rightarrow> Inl KeyError
      | Some c \<Rightarrow>
          (let wallet_balance = safe_float pf (dict_get coin ''walletBalance'');
               available_to_withdraw = safe_float pf (dict_get coin ''availableToWithdraw'')
           in if c = JStr ''SOL'' then coin_loop pf cs (wallet_balance, usdt_available)
              else if c = JStr ''USDT'' then coin_loop pf cs (sol_total, available_to_withdraw)
              else coin_loop pf cs (sol_total, usdt_available)))"

fun acct_loop ::
  "(string \<Rightarrow> real option) \<Rightarrow> acct list \<Rightarrow> real \<times> real \<Rightarrow> exn + real \<times> real" where
  "acct_loop pf [] acc = Inr acc"
| "acct_loop pf (a # as) acc =
     (case coin_loop pf (case a of None \<Rightarrow> [] | Some cs \<Rightarrow> cs) acc of
        Inl e \<Rightarrow> Inl e
      | Inr acc' \<Rightarrow> acct_loop pf as acc')"

definition get_balances ::
  "(string \<Rightarrow> real option) \<Rightarrow> acct api_resp option \<Rightarrow> exn + real \<times> real" where
  "get_balances pf r =
     (case r of
        None \<Rightarrow> Inl GatewayError
      | Some resp \<Rightarrow>
          if retCode resp \<noteq> Some 0 then Inl RuntimeError
          else acct_loop pf (result_list resp) (0, 0))"

text \<open>
  \<^verbatim>\<open>place_market_order\<close>: the result, and the order handed to the exchange, if one was.
\<close>

definition place_market_order ::
  "config \<Rightarrow> env \<Rightarrow> side \<Rightarrow> real \<Rightarrow> (exn + unit) \<times> event list" where
  "place_market_order cfg en sd qty =
     (case quantize_qty cfg qty of
        Inl e \<Rightarrow> (Inl e, [])
      | Inr qty_adj \<Rightarrow>
          if qty_adj \<le> 0 then (Inl RuntimeError, [])
          else (case order_reply en of
                  None \<Rightarrow> (Inl GatewayError, [PlaceOrder sd qty_adj])
                | Some resp \<Rightarrow>
                    if retCode resp \<noteq> Some 0 then (Inl RuntimeError, [PlaceOrder sd qty_adj])
                    else (Inr (), [PlaceOrder sd qty_adj])))"

section \<open>The reference price store\<close>

definition get_base_price :: "env \<Rightarrow> store \<Rightarrow> exn + real option" where
  "get_base_price en st = (if db_read_ok en then Inr st else Inl DBError)"

definition set_base_price :: "env \<Rightarrow> store \<Rightarrow> real \<Rightarrow> exn + store" where
  "set_base_price en st price = (if db_write_ok en then Inr (Some price) else Inl DBError)"

section \<open>One tick of the main loop\<close>

text \<open>The first \<^verbatim>\<open>try\<close> block of the loop: the price, then the balances.\<close>

definition fetch ::
  "(string \<Rightarrow> real option) \<Rightarrow> env \<Rightarrow> exn + real \<times> real \<times> real" where
  "fetch pf en =
     (case get_spot_price pf (tickers en) of
        Inl e \<Rightarrow> Inl e
      | Inr price \<Rightarrow>
          (case get_balances pf (wallet en) of
             Inl e \<Rightarrow> Inl e
           | Inr (sol_total, usdt_available) \<Rightarrow> Inr (price, sol_total, usdt_available)))"

text \<open>The branch for a missing base price.\<close>

definition init_branch :: "env \<Rightarrow> store \<Rightarrow> event list \<Rightarrow> real \<Rightarrow> outcome" where
  "init_branch en st evs0 price =
     (case set_base_price en st price of
        Inl e \<Rightarrow>
          \<lparr>new_store = st,
           events = evs0 @ [StoreWrite price, Stderr ErrDbWrite, Telegram (InitNotice price)],
           uncaught = None\<rparr>
      | Inr st' \<Rightarrow>
          \<lparr>new_store = st',
           events = evs0 @ [StoreWrite price, Telegram (InitNotice price)],
           uncaught = None\<rparr>)"

text \<open>The quantities the loop computes from the price, as the source writes them.\<close>

definition position_value :: "real \<Rightarrow> real \<Rightarrow> real" where
  "position_value sol_total price = fmul sol_total price"

definition change_pct :: "real \<Rightarrow> real \<Rightarrow> real" where
  "change_pct price base_price = fmul (fdiv (fsub price base_price) base_price) 100"

definition tp_level :: "config \<Rightarrow> real \<Rightarrow> real" where
  "tp_level cfg base_price = fmul base_price (fadd 1 (fdiv (TP_PERCENT cfg) 100))"

definition dip_level :: "config \<Rightarrow> real \<Rightarrow> real" where
  "dip_level cfg base_price = fmul base_price (fsub 1 (fdiv (DIP_PERCENT cfg) 100))"

definition est_qty :: "config \<Rightarrow> real \<Rightarrow> real" where
  "est_qty cfg price = fdiv (ORDER_USDT cfg) price"

text \<open>The take-profit branch, entered with a position.\<close>

definition sell_branch ::
  "config \<Rightarrow> env \<Rightarrow> store \<Rightarrow> real \<Rightarrow> real \<Rightarrow> real \<Rightarrow> real \<Rightarrow> outcome" where
  "sell_branch cfg en st price sol_total base_price chg =
     (let level = tp_level cfg base_price
      in if level \<le> price then
           (case place_market_order cfg en Sell sol_total of
              (Inl e, oevs) \<Rightarrow>
                \<lparr>new_store = st, events = oevs @ [Stderr ErrSell], uncaught = None\<rparr>
            | (Inr resp, oevs) \<Rightarrow>
                (let msg = Telegram (TakeProfitNotice sol_total price base_price chg)
                 in case set_base_price en st price of
                      Inl e \<Rightarrow>
                        \<lparr>new_store = st,
                         events = oevs @ [msg, StoreWrite price, Stderr ErrDbWrite],
                         uncaught = None\<rparr>
                    | Inr st' \<Rightarrow>
                        \<lparr>new_store = st',
                         events = oevs @ [msg, StoreWrite price],
                         uncaught = None\<rparr>))
         else \<lparr>new_store = st, events = [], uncaught = None\<rparr>)"

text \<open>The dip-buy branch, entered without a position.\<close>

definition buy_branch ::
  "config \<Rightarrow> env \<Rightarrow> store \<Rightarrow> real \<Rightarrow> real \<Rightarrow> real \<Rightarrow> real \<Rightarrow> outcome" where
  "buy_branch cfg en st price usdt_available base_price chg =
     (let level = dip_level cfg base_price
      in if price \<le> level then
           if usdt_available < ORDER_USDT cfg then
             \<lparr>new_store = st,
              events = [Telegram (InsufficientNotice usdt_available (ORDER_USDT cfg))],
              uncaught = None\<rparr>
           else if price = 0 then
             \<lparr>new_store = st, events = [], uncaught = Some ZeroDivisionError\<rparr>
           else
             (let est = est_qty cfg price
              in case quantize_qty cfg est of
                   Inl e \<Rightarrow> \<lparr>new_store = st, events = [], uncaught = Some e\<rparr>
                 | Inr qty \<Rightarrow>
                     (case place_market_order cfg en Buy qty of
                        (Inl e, oevs) \<Rightarrow>
                          \<lparr>new_store = st, events = oevs @ [Stderr ErrBuy], uncaught = None\<rparr>
                      | (Inr resp, oevs) \<Rightarrow>
                          (let new_base = price;
                               msg = Telegram (DipBuyNotice qty price base_price chg new_base)
                           in case set_base_price en st new_base of
                                Inl e \<Rightarrow>
                                  \<lparr>new_store = st,
                                   events = oevs @ [StoreWrite new_base, Stderr ErrDbWrite, msg],
                                   uncaught = None\<rparr>
                              | Inr st' \<Rightarrow>
                                  \<lparr>new_store = st',
                                   events = oevs @ [StoreWrite new_base, msg],
                                   uncaught = None\<rparr>)))
         else \<lparr>new_store = st, events = [], uncaught = None\<rparr>)"

text \<open>
  The body of \<^verbatim>\<open>while True\<close>. A failed read of the base price is logged and the base
  price taken as \<^verbatim>\<open>None\<close>, as the handler does.
\<close>

definition tick :: "config \<Rightarrow> (string \<Rightarrow> real option) \<Rightarrow> env \<Rightarrow> store \<Rightarrow> outcome" where
  "tick cfg pf en st =
     (case fetch pf en of
        Inl e \<Rightarrow> \<lparr>new_store = st, events = [Stderr ErrFetch], uncaught = None\<rparr>
      | Inr (price, sol_total, usdt_available) \<Rightarrow>
          (let has_position = (MIN_POSITION_USDT cfg \<le> position_value sol_total price)
           in case get_base_price en st of
                Inl e \<Rightarrow> init_branch en st [Stderr ErrDbRead] price
              | Inr None \<Rightarrow> init_branch en st [] price
              | Inr (Some base_price) \<Rightarrow>
                  if base_price = 0 then
                    \<lparr>new_store = st, events = [], uncaught = Some ZeroDivisionError\<rparr>
                  else
                    (let chg = change_pct price base_price
                     in if has_position
                        then sell_branch cfg en st price sol_total base_price chg
                        else buy_branch cfg en st price usdt_available base_price chg)))"

text \<open>
  The loop itself never ends by design. It is run here on a finite list of answers, one
  per tick, and stops early only at an uncaught exception.
\<close>

fun main_loop :: "config \<Rightarrow> (string \<Rightarrow> real option) \<Rightarrow> env list \<Rightarrow> store \<Rightarrow> outcome" where
  "main_loop cfg pf [] st = \<lparr>new_store = st, events = [], uncaught = None\<rparr>"
| "main_loop cfg pf (en # ens) st =
     (let o1 = tick cfg pf en st
      in case uncaught o1 of
           Some e \<Rightarrow> o1
         | None \<Rightarrow>
             (let o2 = main_loop cfg pf ens (new_store o1)
              in o2\<lparr>events := events o1 @ events o2\<rparr>))"

section \<open>Observations on a trace\<close>

fun orders :: "event list \<Rightarrow> (side \<times> real) list" where
  "orders [] = []"
| "orders (PlaceOrder sd q # evs) = (sd, q) # orders evs"
| "orders (_ # evs) = orders evs"

fun writes :: "event list \<Rightarrow> real list" where
  "writes [] = []"
| "writes (StoreWrite p # evs) = p # writes evs"
| "writes (_ # evs) = writes evs"

fun telegrams :: "event list \<Rightarrow> notice list" where
  "telegrams [] = []"
| "telegrams (Telegram n # evs) = n # telegrams evs"
| "telegrams (_ # evs) = telegrams evs"

section \<open>Notions used in the statements\<close>

text \<open>The exchange took the order: the call returned, with \<^verbatim>\<open>retCode\<close> 0.\<close>

definition order_accepted :: "env \<Rightarrow> bool" where
  "order_accepted en =
     (case order_reply en of None \<Rightarrow> False | Some resp \<Rightarrow> retCode resp = Some 0)"

text \<open>The events of a tick whose order was accepted, in the order of the two branches.\<close>

definition trade_events :: "env \<Rightarrow> side \<Rightarrow> real \<Rightarrow> notice \<Rightarrow> real \<Rightarrow> event list" where
  "trade_events en sd q n price =
     (if sd = Sell
      then [PlaceOrder sd q, Telegram n, StoreWrite price]
           @ (if db_write_ok en then [] else [Stderr ErrDbWrite])
      else [PlaceOrder sd q, StoreWrite price]
           @ (if db_write_ok en then [] else [Stderr ErrDbWrite]) @ [Telegram n])"

text \<open>
  The balance reader as a description: all coin entries of all accounts in order, and
  the field \<open>k\<close> of the last entry for coin \<open>c\<close>, or \<open>d\<close> when there is none.
\<close>

definition all_coins :: "acct list \<Rightarrow> pydict list" where
  "all_coins accts = concat (map (\<lambda>a. case a of None \<Rightarrow> [] | Some cs \<Rightarrow> cs) accts)"

definition last_entry_field ::
  "(string \<Rightarrow> real option) \<Rightarrow> string \<Rightarrow> string \<Rightarrow> pydict list \<Rightarrow> real \<Rightarrow> real" where
  "last_entry_field pf c k coins d =
     (case filter (\<lambda>e. e ''coin'' = Some (JStr c)) coins of
        [] \<Rightarrow> d
      | e # es \<Rightarrow> safe_float pf (dict_get (last (e # es)) k))"

section \<open>Concrete answers of the collaborators\<close>

text \<open>A dictionary literal, from its items.\<close>

definition dict_of :: "(string \<times> jval) list \<Rightarrow> pydict" where
  "dict_of items = map_of (rev items)"

text \<open>
  The builtin \<^verbatim>\<open>float\<close> on the strings used below: each value is the double nearest to
  the decimal.
\<close>

definition pf_table :: "string \<Rightarrow> real option" where
  "pf_table =
     map_of [(''94'', 94), (''102'', 102), (''104'', 104), (''90000'', 90000),
             (''1.5'', 3 / 2), (''0.25'', 1 / 4), (''30'', 30), (''12.5'', 25 / 2),
             (''1000'', 1000), (''177'', 177), (''43.7'', rnd (437 / 10)),
             (''0.087'', rnd (87 / 1000))]"

definition ticker_answer :: "jval \<Rightarrow> pydict api_resp option" where
  "ticker_answer v = Some \<lparr>retCode = Some 0, result_list = [dict_of [(''lastPrice'', v)]]\<rparr>"

definition wallet_answer :: "jval \<Rightarrow> jval \<Rightarrow> acct api_resp option" where
  "wallet_answer sol usdt =
     Some \<lparr>retCode = Some 0,
           result_list =
             [Some [dict_of [(''coin'', JStr ''SOL''), (''walletBalance'', sol)],
                    dict_of [(''coin'', JStr ''USDT''), (''walletBalance'', JStr ''1000''), (''availableToWithdraw'', usdt)]]]\<rparr>"

definition order_ok :: "unit api_resp option" where
  "order_ok = Some \<lparr>retCode = Some 0, result_list = []\<rparr>"

definition order_rejected :: "unit api_resp option" where
  "order_rejected = Some \<lparr>retCode = Some 170131, result_list = []\<rparr>"

definition demo_env ::
  "jval \<Rightarrow> jval \<Rightarrow> jval \<Rightarrow> bool \<Rightarrow> bool \<Rightarrow> unit api_resp option \<Rightarrow> env" where
  "demo_env p sol usdt rd wr reply =
     \<lparr>tickers = ticker_answer p, wallet = wallet_answer sol usdt,
      db_read_ok = rd, db_write_ok = wr, order_reply = reply\<rparr>"

text \<open>
  A wallet answer with two accounts: both coins listed twice, the later SOL entry with
  a smaller balance, the later USDT entry with a field that does not parse.
\<close>

definition two_account_wallet :: "acct api_resp" where
  "two_account_wallet =
     \<lparr>retCode = Some 0,
      result_list =
        [Some [dict_of [(''coin'', JStr ''SOL''), (''walletBalance'', JStr ''1.5''), (''availableToWithdraw'', JStr ''1.5'')],
               dict_of [(''coin'', JStr ''USDT''), (''walletBalance'', JStr ''1000''), (''availableToWithdraw'', JStr ''30'')]],
         None,
         Some [dict_of [(''coin'', JStr ''SOL''), (''walletBalance'', JStr '' 0.25 '')],
               dict_of [(''coin'', JStr ''USDT''), (''walletBalance'', JStr ''1000''), (''availableToWithdraw'', JStr ''n/a'')]]]\<rparr>"

lemmas demo_defs =
  fetch_def get_spot_price_def get_balances_def demo_env_def ticker_answer_def
  wallet_answer_def dict_of_def py_float_def safe_float_def dict_get_def strip_def py_isspace_def
  pf_table_def get_base_price_def order_ok_def order_rejected_def order_accepted_def

section \<open>Rounding and the quantizer\<close>

lemma round_half_even_of_int: "round_half_even (of_int k) = k"
  by (simp add: round_half_even_def)

lemma round_half_even_nonneg: "0 \<le> x \<Longrightarrow> 0 \<le> round_half_even x"
  by (auto simp: round_half_even_def Let_def)

text \<open>The exponent search finds the exponent of a number that has one in range.\<close>

lemma fexp_from_eq:
  "e0 \<le> e \<Longrightarrow> nat (e - e0) \<le> n \<Longrightarrow> e = e0 \<or> 2 powi e \<le> a \<Longrightarrow> a < 2 powi (e + 1) \<Longrightarrow>
   fexp_from n e0 a = e"
proof (induction n arbitrary: e0)
  case 0
  then show ?case by simp
next
  case (Suc n)
  show ?case
  proof (cases "e = e0")
    case True
    with Suc.prems show ?thesis by simp
  next
    case False
    with Suc.prems have lt: "e0 < e" and ge: "2 powi e \<le> a" by auto
    have "(2::real) powi (e0 + 1) \<le> 2 powi e"
      using lt by (intro power_int_increasing) auto
    with ge have n: "\<not> a < 2 powi (e0 + 1)" by simp
    have "fexp_from n (e0 + 1) a = e"
      using Suc.prems lt ge by (intro Suc.IH) auto
    with n show ?thesis by simp
  qed
qed

lemma fexp_eq:
  assumes "- 1022 \<le> e" "e \<le> 1023" "e = - 1022 \<or> 2 powi e \<le> \<bar>x\<bar>" "\<bar>x\<bar> < 2 powi (e + 1)"
  shows "fexp x = e"
  unfolding fexp_def using assms by (intro fexp_from_eq) auto

text \<open>How a number with a known exponent is rounded: the rule all evaluations use.\<close>

lemma rnd_cases:
  assumes "- 1022 \<le> e" "e \<le> 1023" "e = - 1022 \<or> 2 powi e \<le> \<bar>x\<bar>" "\<bar>x\<bar> < 2 powi (e + 1)"
  shows "rnd x = of_int (round_half_even (x / 2 powi (e - 52))) * 2 powi (e - 52)"
  by (simp add: rnd_def fexp_eq [OF assms])

lemma rnd_0: "rnd 0 = 0"
  by (simp add: rnd_cases [where e = "- 1022"] round_half_even_def)

lemma rnd_nonneg: "0 \<le> x \<Longrightarrow> 0 \<le> rnd x"
proof -
  assume x: "0 \<le> x"
  have p: "(0::real) < 2 powi (fexp x - 52)"
    by (rule zero_less_power_int) simp
  with x have "0 \<le> x / 2 powi (fexp x - 52)" by simp
  then have "0 \<le> round_half_even (x / 2 powi (fexp x - 52))"
    by (rule round_half_even_nonneg)
  with p show ?thesis by (simp add: rnd_def)
qed

lemma py_round_nonneg: "0 \<le> x \<Longrightarrow> 0 \<le> py_round x n"
  by (simp add: py_round_def rnd_nonneg round_half_even_nonneg)

lemma py_round_0: "py_round 0 n = 0"
  by (simp add: py_round_def round_half_even_def rnd_0)

lemma quantize_qty_value:
  "QTY_STEP cfg \<noteq> 0 \<Longrightarrow>
   quantize_qty cfg qty =
     Inr (if qty \<le> 0 then 0
          else py_round (fmul (of_int \<lfloor>fdiv qty (QTY_STEP cfg)\<rfloor>) (QTY_STEP cfg)) 6)"
  by (simp add: quantize_qty_def Let_def)

lemma quantize_qty_zero: "quantize_qty cfg 0 = Inr 0"
  by (simp add: quantize_qty_def)

lemma quantize_qty_idem_zero:
  "quantize_qty cfg q = Inr q' \<Longrightarrow> q \<le> 0 \<Longrightarrow> q' = 0"
  by (simp add: quantize_qty_def)

text \<open>
  A positive result comes from a positive request and a non-zero step, and it is a whole
  number of steps, at least one when the step is positive, multiplied out in floats and
  rounded to 6 digits.
\<close>

lemma quantize_qty_pos:
  assumes "quantize_qty cfg x = Inr q" and "0 < q"
  shows "0 < x \<and> QTY_STEP cfg \<noteq> 0
         \<and> q = py_round (fmul (of_int \<lfloor>fdiv x (QTY_STEP cfg)\<rfloor>) (QTY_STEP cfg)) 6
         \<and> (0 < QTY_STEP cfg \<longrightarrow> 1 \<le> \<lfloor>fdiv x (QTY_STEP cfg)\<rfloor>)"
proof -
  let ?k = "\<lfloor>fdiv x (QTY_STEP cfg)\<rfloor>"
  from assms have x: "0 < x" and s: "QTY_STEP cfg \<noteq> 0"
    and q: "q = py_round (fmul (of_int ?k) (QTY_STEP cfg)) 6"
    by (auto simp: quantize_qty_def Let_def split: if_splits)
  have "1 \<le> ?k" if S: "0 < QTY_STEP cfg"
  proof -
    from x S have "0 \<le> x / QTY_STEP cfg" by simp
    then have "0 \<le> fdiv x (QTY_STEP cfg)"
      unfolding fdiv_def by (rule rnd_nonneg)
    then have a: "0 \<le> ?k" by simp
    have b: "?k \<noteq> 0"
    proof
      assume "?k = 0"
      with q have "q = 0" by (simp add: fmul_def rnd_0 py_round_0)
      with assms(2) show False by simp
    qed
    from a b have "0 < ?k" by (metis order_le_less)
    then show ?thesis by (metis zless_imp_add1_zle add_0)
  qed
  with x s q show ?thesis by simp
qed

section \<open>The balance reader\<close>

lemma last_entry_field_Nil: "last_entry_field pf c k [] d = d"
  by (simp add: last_entry_field_def)

lemma last_entry_field_Cons:
  "last_entry_field pf c k (e # es) d =
     last_entry_field pf c k es
       (if e ''coin'' = Some (JStr c) then safe_float pf (dict_get e k) else d)"
  by (simp add: last_entry_field_def split: list.splits)

lemma last_entry_field_append:
  "last_entry_field pf c k (xs @ ys) d =
     last_entry_field pf c k ys (last_entry_field pf c k xs d)"
  by (induction xs arbitrary: d) (simp_all add: last_entry_field_Nil last_entry_field_Cons)

lemma coin_loop_last:
  "\<forall>e \<in> set cs. e ''coin'' \<noteq> None \<Longrightarrow>
   coin_loop pf cs (s, u) =
     Inr (last_entry_field pf ''SOL'' ''walletBalance'' cs s,
          last_entry_field pf ''USDT'' ''availableToWithdraw'' cs u)"
proof (induction cs arbitrary: s u)
  case Nil
  show ?case by (simp add: last_entry_field_Nil)
next
  case (Cons e cs)
  from Cons.prems obtain c where c: "e ''coin'' = Some c" by auto
  from Cons.prems have rest: "\<forall>e \<in> set cs. e ''coin'' \<noteq> None" by simp
  show ?case
    using c Cons.IH [OF rest]
    by (simp add: last_entry_field_Cons Let_def)
qed

lemma acct_loop_last:
  "\<forall>e \<in> set (all_coins accts). e ''coin'' \<noteq> None \<Longrightarrow>
   acct_loop pf accts (s, u) =
     Inr (last_entry_field pf ''SOL'' ''walletBalance'' (all_coins accts) s,
          last_entry_field pf ''USDT'' ''availableToWithdraw'' (all_coins accts) u)"
proof (induction accts arbitrary: s u)
  case Nil
  show ?case by (simp add: all_coins_def last_entry_field_Nil)
next
  case (Cons a accts)
  let ?cs = "case a of None \<Rightarrow> [] | Some cs \<Rightarrow> cs"
  have split: "all_coins (a # accts) = ?cs @ all_coins accts"
    by (simp add: all_coins_def)
  from Cons.prems have h1: "\<forall>e \<in> set ?cs. e ''coin'' \<noteq> None"
    and h2: "\<forall>e \<in> set (all_coins accts). e ''coin'' \<noteq> None"
    by (simp_all add: split)
  show ?case
    by (simp add: coin_loop_last [OF h1] Cons.IH [OF h2] split last_entry_field_append)
qed

lemma safe_float_absent: "d k = None \<Longrightarrow> safe_float pf (dict_get d k) = 0"
  by (simp add: safe_float_def dict_get_def)

lemma safe_float_malformed: "pf (strip s) = None \<Longrightarrow> safe_float pf (JStr s) = 0"
  by (simp add: safe_float_def Let_def)

section \<open>Orders and the branches of a tick\<close>

lemma place_market_order_cases:
  "(\<exists>e. place_market_order cfg en sd qty = (Inl e, []))
   \<or> (\<exists>q. quantize_qty cfg qty = Inr q \<and> 0 < q \<and>
          place_market_order cfg en sd qty =
            (if order_accepted en then Inr () else Inl (if order_reply en = None then GatewayError else RuntimeError),
             [PlaceOrder sd q]))"
  by (auto simp: place_market_order_def order_accepted_def split: sum.splits option.splits)

lemma place_market_order_nonpositive:
  "quantize_qty cfg qty = Inr q \<Longrightarrow> q \<le> 0 \<Longrightarrow>
   place_market_order cfg en sd qty = (Inl RuntimeError, [])"
  by (simp add: place_market_order_def)

lemma place_market_order_submits:
  "PlaceOrder s1 q1 \<in> set (snd (place_market_order cfg en sd x)) \<Longrightarrow>
   s1 = sd \<and> quantize_qty cfg x = Inr q1 \<and> 0 < q1"
  using place_market_order_cases [of cfg en sd x] by auto

lemma sell_branch_cases:
  "sell_branch cfg en st price sol base chg = \<lparr>new_store = st, events = [], uncaught = None\<rparr>
     \<and> price < tp_level cfg base
   \<or> sell_branch cfg en st price sol base chg = \<lparr>new_store = st, events = [Stderr ErrSell], uncaught = None\<rparr>
     \<and> tp_level cfg base \<le> price
     \<and> (\<exists>e. place_market_order cfg en Sell sol = (Inl e, []))
   \<or> (\<exists>q. quantize_qty cfg sol = Inr q \<and> 0 < q \<and> tp_level cfg base \<le> price \<and>
        sell_branch cfg en st price sol base chg =
          (if order_accepted en then
             \<lparr>new_store = (if db_write_ok en then Some price else st),
              events = [PlaceOrder Sell q, Telegram (TakeProfitNotice sol price base chg), StoreWrite price]
                       @ (if db_write_ok en then [] else [Stderr ErrDbWrite]),
              uncaught = None\<rparr>
           else \<lparr>new_store = st, events = [PlaceOrder Sell q, Stderr ErrSell], uncaught = None\<rparr>))"
  using place_market_order_cases [of cfg en Sell sol]
  by (auto simp: sell_branch_def Let_def set_base_price_def)

lemma buy_branch_cases:
  "buy_branch cfg en st price usdt base chg = \<lparr>new_store = st, events = [], uncaught = None\<rparr>
     \<and> dip_level cfg base < price
   \<or> buy_branch cfg en st price usdt base chg =
        \<lparr>new_store = st, events = [Telegram (InsufficientNotice usdt (ORDER_USDT cfg))], uncaught = None\<rparr>
     \<and> price \<le> dip_level cfg base \<and> usdt < ORDER_USDT cfg
   \<or> (\<exists>e. buy_branch cfg en st price usdt base chg = \<lparr>new_store = st, events = [], uncaught = Some e\<rparr>)
     \<and> price \<le> dip_level cfg base \<and> ORDER_USDT cfg \<le> usdt
   \<or> buy_branch cfg en st price usdt base chg = \<lparr>new_store = st, events = [Stderr ErrBuy], uncaught = None\<rparr>
     \<and> price \<le> dip_level cfg base \<and> ORDER_USDT cfg \<le> usdt \<and> price \<noteq> 0
     \<and> (\<exists>qty e. quantize_qty cfg (est_qty cfg price) = Inr qty \<and> place_market_order cfg en Buy qty = (Inl e, []))
   \<or> (\<exists>qty q. quantize_qty cfg (est_qty cfg price) = Inr qty \<and> quantize_qty cfg qty = Inr q \<and> 0 < q
        \<and> price \<le> dip_level cfg base \<and> ORDER_USDT cfg \<le> usdt \<and> price \<noteq> 0 \<and>
        buy_branch cfg en st price usdt base chg =
          (if order_accepted en then
             \<lparr>new_store = (if db_write_ok en then Some price else st),
              events = [PlaceOrder Buy q, StoreWrite price]
                       @ (if db_write_ok en then [] else [Stderr ErrDbWrite])
                       @ [Telegram (DipBuyNotice qty price base chg price)],
              uncaught = None\<rparr>
           else \<lparr>new_store = st, events = [PlaceOrder Buy q, Stderr ErrBuy], uncaught = None\<rparr>))"
proof (cases "price \<le> dip_level cfg base")
  case False
  then show ?thesis by (simp add: buy_branch_def Let_def)
next
  case dip: True
  show ?thesis
  proof (cases "usdt < ORDER_USDT cfg")
    case True
    with dip show ?thesis by (simp add: buy_branch_def Let_def)
  next
    case funds: False
    show ?thesis
    proof (cases "price = 0")
      case True
      with dip funds show ?thesis by (simp add: buy_branch_def Let_def)
    next
      case p: False
      show ?thesis
      proof (cases "quantize_qty cfg (est_qty cfg price)")
        case (Inl e)
        with dip funds p show ?thesis by (simp add: buy_branch_def Let_def)
      next
        case (Inr qty)
        from place_market_order_cases [of cfg en Buy qty]
        show ?thesis
        proof (elim disjE exE conjE)
          fix e assume "place_market_order cfg en Buy qty = (Inl e, [])"
          with dip funds p Inr show ?thesis by (simp add: buy_branch_def Let_def)
        next
          fix q assume "quantize_qty cfg qty = Inr q" "0 < q"
            and "place_market_order cfg en Buy qty =
              (if order_accepted en then Inr () else Inl (if order_reply en = None then GatewayError else RuntimeError),
               [PlaceOrder Buy q])"
          with dip funds p Inr show ?thesis
            by (simp add: buy_branch_def Let_def set_base_price_def)
        qed
      qed
    qed
  qed
qed

lemma tick_fetch_failed:
  "fetch pf en = Inl e \<Longrightarrow>
   tick cfg pf en st = \<lparr>new_store = st, events = [Stderr ErrFetch], uncaught = None\<rparr>"
  by (simp add: tick_def)

lemma tick_no_base:
  "fetch pf en = Inr (price, sol, usdt) \<Longrightarrow> get_base_price en st = Inr None \<Longrightarrow>
   tick cfg pf en st = init_branch en st [] price"
  by (simp add: tick_def Let_def)

lemma tick_read_failed:
  "fetch pf en = Inr (price, sol, usdt) \<Longrightarrow> get_base_price en st = Inl e \<Longrightarrow>
   tick cfg pf en st = init_branch en st [Stderr ErrDbRead] price"
  by (simp add: tick_def Let_def)

lemma tick_zero_base:
  "fetch pf en = Inr (price, sol, usdt) \<Longrightarrow> get_base_price en st = Inr (Some 0) \<Longrightarrow>
   tick cfg pf en st = \<lparr>new_store = st, events = [], uncaught = Some ZeroDivisionError\<rparr>"
  by (simp add: tick_def Let_def)

lemma tick_with_base:
  "fetch pf en = Inr (price, sol, usdt) \<Longrightarrow> get_base_price en st = Inr (Some base) \<Longrightarrow>
   base \<noteq> 0 \<Longrightarrow>
   tick cfg pf en st =
     (if MIN_POSITION_USDT cfg \<le> position_value sol price
      then sell_branch cfg en st price sol base (change_pct price base)
      else buy_branch cfg en st price usdt base (change_pct price base))"
  by (simp add: tick_def Let_def)

lemma init_branch_eq:
  "init_branch en st evs0 price =
     \<lparr>new_store = (if db_write_ok en then Some price else st),
      events = evs0 @ [StoreWrite price] @ (if db_write_ok en then [] else [Stderr ErrDbWrite])
               @ [Telegram (InitNotice price)],
      uncaught = None\<rparr>"
  by (simp add: init_branch_def set_base_price_def)

text \<open>
  A tick that hands an order to the exchange has read the price, the balances and a
  non-zero base price; the order is the quantized request of its branch; and what follows
  depends only on whether the exchange accepts.
\<close>

lemma tick_with_order:
  assumes "PlaceOrder sd q \<in> set (events (tick cfg pf en st))"
  shows "\<exists>price sol usdt base x n.
           fetch pf en = Inr (price, sol, usdt) \<and> get_base_price en st = Inr (Some base)
           \<and> base \<noteq> 0 \<and> quantize_qty cfg x = Inr q \<and> 0 < q
           \<and> (sd = Sell \<and> x = sol \<and> MIN_POSITION_USDT cfg \<le> position_value sol price
                \<and> tp_level cfg base \<le> price
              \<or> sd = Buy \<and> quantize_qty cfg (est_qty cfg price) = Inr x
                \<and> position_value sol price < MIN_POSITION_USDT cfg
                \<and> price \<le> dip_level cfg base
                \<and> ORDER_USDT cfg \<le> usdt \<and> price \<noteq> 0)
           \<and> tick cfg pf en st =
               (if order_accepted en
                then \<lparr>new_store = (if db_write_ok en then Some price else st),
                      events = trade_events en sd q n price, uncaught = None\<rparr>
                else \<lparr>new_store = st,
                      events = [PlaceOrder sd q, Stderr (if sd = Sell then ErrSell else ErrBuy)],
                      uncaught = None\<rparr>)"
proof (cases "fetch pf en")
  case (Inl e)
  with assms show ?thesis by (simp add: tick_fetch_failed)
next
  case (Inr t)
  then obtain price sol usdt where f: "fetch pf en = Inr (price, sol, usdt)"
    by (cases t) auto
  show ?thesis
  proof (cases "get_base_price en st")
    case (Inl e)
    with assms f show ?thesis by (auto simp: tick_read_failed init_branch_eq split: if_splits)
  next
    case (Inr b)
    show ?thesis
    proof (cases b)
      case None
      with assms f Inr show ?thesis by (auto simp: tick_no_base init_branch_eq split: if_splits)
    next
      case (Some base)
      with Inr have g: "get_base_price en st = Inr (Some base)" by simp
      show ?thesis
      proof (cases "base = 0")
        case True
        with assms f g show ?thesis by (simp add: tick_zero_base)
      next
        case nz: False
        let ?chg = "change_pct price base"
        note t = tick_with_base [OF f g nz, of cfg]
        show ?thesis
        proof (cases "MIN_POSITION_USDT cfg \<le> position_value sol price")
          case True
          with t have ts: "tick cfg pf en st = sell_branch cfg en st price sol base ?chg" by simp
          from sell_branch_cases [of cfg en st price sol base ?chg] assms ts
          obtain q' where q': "quantize_qty cfg sol = Inr q'" "0 < q'"
              "tp_level cfg base \<le> price"
              "sell_branch cfg en st price sol base ?chg =
                (if order_accepted en then
                   \<lparr>new_store = (if db_write_ok en then Some price else st),
                    events = [PlaceOrder Sell q', Telegram (TakeProfitNotice sol price base ?chg), StoreWrite price]
                       @ (if db_write_ok en then [] else [Stderr ErrDbWrite]),
                    uncaught = None\<rparr>
                 else \<lparr>new_store = st, events = [PlaceOrder Sell q', Stderr ErrSell], uncaught = None\<rparr>)"
            by (elim disjE exE conjE) simp_all
          from assms ts q'(4) have sq: "sd = Sell" "q = q'"
            by (auto split: if_splits)
          show ?thesis
            apply (rule exI [of _ price], rule exI [of _ sol], rule exI [of _ usdt])
            apply (rule exI [of _ base], rule exI [of _ sol])
            apply (rule exI [of _ "TakeProfitNotice sol price base ?chg"])
            using f g nz q' True ts sq by (simp add: trade_events_def)
        next
          case False
          with t have tb: "tick cfg pf en st = buy_branch cfg en st price usdt base ?chg" by simp
          from buy_branch_cases [of cfg en st price usdt base ?chg] assms tb
          obtain qty q' where q': "quantize_qty cfg (est_qty cfg price) = Inr qty"
              "quantize_qty cfg qty = Inr q'" "0 < q'"
              "price \<le> dip_level cfg base" "ORDER_USDT cfg \<le> usdt" "price \<noteq> 0"
              "buy_branch cfg en st price usdt base ?chg =
                (if order_accepted en then
                   \<lparr>new_store = (if db_write_ok en then Some price else st),
                    events = [PlaceOrder Buy q', StoreWrite price]
                       @ (if db_write_ok en then [] else [Stderr ErrDbWrite])
                       @ [Telegram (DipBuyNotice qty price base ?chg price)],
                    uncaught = None\<rparr>
                 else \<lparr>new_store = st, events = [PlaceOrder Buy q', Stderr ErrBuy], uncaught = None\<rparr>)"
            by (elim disjE exE conjE) auto
          from assms tb q'(7) have sq: "sd = Buy" "q = q'"
            by (auto split: if_splits)
          show ?thesis
            apply (rule exI [of _ price], rule exI [of _ sol], rule exI [of _ usdt])
            apply (rule exI [of _ base], rule exI [of _ qty])
            apply (rule exI [of _ "DipBuyNotice qty price base ?chg price"])
            using f g nz q' False tb sq by (simp add: trade_events_def)
        qed
      qed
    qed
  qed
qed

lemma writes_trade_events: "writes (trade_events en sd q n price) = [price]"
  by (simp add: trade_events_def)

lemma telegrams_trade_events: "telegrams (trade_events en sd q n price) = [n]"
  by (simp add: trade_events_def)

lemma tick_store_cases:
  "new_store (tick cfg pf en st) = st \<or> (\<exists>p. new_store (tick cfg pf en st) = Some p)"
proof (cases "fetch pf en")
  case (Inl e)
  then show ?thesis by (simp add: tick_fetch_failed)
next
  case (Inr t)
  then obtain price sol usdt where f: "fetch pf en = Inr (price, sol, usdt)"
    by (cases t) auto
  show ?thesis
  proof (cases "get_base_price en st")
    case (Inl e)
    with f show ?thesis by (simp add: tick_read_failed init_branch_eq)
  next
    case (Inr b)
    show ?thesis
    proof (cases b)
      case None
      with f Inr show ?thesis by (simp add: tick_no_base init_branch_eq)
    next
      case (Some base)
      with Inr have g: "get_base_price en st = Inr (Some base)" by simp
      show ?thesis
      proof (cases "base = 0")
        case True
        with f g show ?thesis by (simp add: tick_zero_base)
      next
        case False
        let ?chg = "change_pct price base"
        from tick_with_base [OF f g False, of cfg]
          sell_branch_cases [of cfg en st price sol base ?chg]
          buy_branch_cases [of cfg en st price usdt base ?chg]
        show ?thesis
          by (cases "MIN_POSITION_USDT cfg \<le> position_value sol price") (auto split: if_splits)
      qed
    qed
  qed
qed

lemma tick_keeps_reference: "st \<noteq> None \<Longrightarrow> new_store (tick cfg pf en st) \<noteq> None"
  using tick_store_cases [of cfg pf en st] by auto

lemma main_loop_keeps_reference:
  "st \<noteq> None \<Longrightarrow> new_store (main_loop cfg pf ens st) \<noteq> None"
proof (induction ens arbitrary: st)
  case Nil
  then show ?case by simp
next
  case (Cons en ens)
  from Cons.prems have k: "new_store (tick cfg pf en st) \<noteq> None"
    by (rule tick_keeps_reference)
  show ?case
  proof (cases "uncaught (tick cfg pf en st)")
    case None
    with Cons.IH [OF k] show ?thesis by (simp add: Let_def)
  next
    case (Some e)
    with k show ?thesis by (simp add: Let_def)
  qed
qed

section \<open>Concrete ticks\<close>

lemma double_0_001: "rnd (1 / 1000) = 1152921504606847 / 1152921504606846976"
  by (simp add: rnd_cases [where e = "- 10"] round_half_even_def Let_def)

lemma double_0_141: "rnd (141 / 1000) = 5080060379673919 / 36028797018963968"
  by (simp add: rnd_cases [where e = "- 3"] round_half_even_def Let_def)

lemma double_0_14: "rnd (7 / 50) = 1261007895663739 / 9007199254740992"
  by (simp add: rnd_cases [where e = "- 3"] round_half_even_def Let_def)

lemma double_0_265: "rnd (53 / 200) = 2386907802506363 / 9007199254740992"
  by (simp add: rnd_cases [where e = "- 2"] round_half_even_def Let_def)

lemma double_43_7: "rnd (437 / 10) = 3075114120563917 / 70368744177664"
  by (simp add: rnd_cases [where e = "5"] round_half_even_def Let_def)

lemma double_0_087: "rnd (87 / 1000) = 3134505340649865 / 36028797018963968"
  by (simp add: rnd_cases [where e = "- 4"] round_half_even_def Let_def)

lemma double_0_086: "rnd (43 / 500) = 3098476543630901 / 36028797018963968"
  by (simp add: rnd_cases [where e = "- 4"] round_half_even_def Let_def)

lemma default_config_fields:
  "DIP_PERCENT default_config = 5" "TP_PERCENT default_config = 4"
  "ORDER_USDT default_config = 25" "MIN_POSITION_USDT default_config = 5"
  "QTY_STEP default_config = 1152921504606847 / 1152921504606846976"
  by (simp_all add: default_config_def double_0_001)

lemma position_value_0_94:
  "position_value 0 94 = 0"
proof -
  have e1: "fmul 0 94 = 0"
    by (simp add: fmul_def rnd_cases [where e = "- 1022"] round_half_even_def Let_def)
  show ?thesis
    by (simp add: position_value_def e1)
qed

lemma change_pct_94_100:
  "change_pct 94 100 = - 6"
proof -
  have e1: "fsub 94 100 = - 6"
    by (simp add: fsub_def rnd_cases [where e = "2"] round_half_even_def Let_def)
  have e2: "fdiv (- 6) 100 = - (1080863910568919 / 18014398509481984)"
    by (simp add: fdiv_def rnd_cases [where e = "- 5"] round_half_even_def Let_def)
  have e3: "fmul (- (1080863910568919 / 18014398509481984)) 100 = - 6"
    by (simp add: fmul_def rnd_cases [where e = "2"] round_half_even_def Let_def)
  show ?thesis
    by (simp add: change_pct_def e1 e2 e3)
qed

lemma dip_level_100:
  "dip_level default_config 100 = 95"
proof -
  have e1: "fdiv 5 100 = 3602879701896397 / 72057594037927936"
    by (simp add: fdiv_def rnd_cases [where e = "- 5"] round_half_even_def Let_def)
  have e2: "fsub 1 (3602879701896397 / 72057594037927936) = 4278419646001971 / 4503599627370496"
    by (simp add: fsub_def rnd_cases [where e = "- 1"] round_half_even_def Let_def)
  have e3: "fmul 100 (4278419646001971 / 4503599627370496) = 95"
    by (simp add: fmul_def rnd_cases [where e = "6"] round_half_even_def Let_def)
  show ?thesis
    by (simp add: dip_level_def default_config_fields e1 e2 e3)
qed

lemma est_qty_94:
  "est_qty default_config 94 = 1197765858343217 / 4503599627370496"
proof -
  have e1: "fdiv 25 94 = 1197765858343217 / 4503599627370496"
    by (simp add: fdiv_def rnd_cases [where e = "- 2"] round_half_even_def Let_def)
  show ?thesis
    by (simp add: est_qty_def default_config_fields e1)
qed

lemma quantize_buy_94:
  "quantize_qty default_config (1197765858343217 / 4503599627370496) = Inr (2386907802506363 / 9007199254740992)"
proof -
  have e1: "fdiv (1197765858343217 / 4503599627370496) (1152921504606847 / 1152921504606846976) = 4678772884153191 / 17592186044416"
    by (simp add: fdiv_def rnd_cases [where e = "8"] round_half_even_def Let_def)
  have e2: "fmul 265 (1152921504606847 / 1152921504606846976) = 2386907802506363 / 9007199254740992"
    by (simp add: fmul_def rnd_cases [where e = "- 2"] round_half_even_def Let_def)
  have e3: "py_round (2386907802506363 / 9007199254740992) 6 = 2386907802506363 / 9007199254740992"
    by (simp add: py_round_def round_half_even_def Let_def rnd_cases [where e = "- 2"])
  show ?thesis
    by (simp add: quantize_qty_def default_config_fields e1 e2 e3)
qed

lemma quantize_again_94:
  "quantize_qty default_config (2386907802506363 / 9007199254740992) = Inr (2386907802506363 / 9007199254740992)"
proof -
  have e1: "fdiv (2386907802506363 / 9007199254740992) (1152921504606847 / 1152921504606846976) = 265"
    by (simp add: fdiv_def rnd_cases [where e = "8"] round_half_even_def Let_def)
  have e2: "fmul 265 (1152921504606847 / 1152921504606846976) = 2386907802506363 / 9007199254740992"
    by (simp add: fmul_def rnd_cases [where e = "- 2"] round_half_even_def Let_def)
  have e3: "py_round (2386907802506363 / 9007199254740992) 6 = 2386907802506363 / 9007199254740992"
    by (simp add: py_round_def round_half_even_def Let_def rnd_cases [where e = "- 2"])
  show ?thesis
    by (simp add: quantize_qty_def default_config_fields e1 e2 e3)
qed

lemma position_value_sell_104:
  "position_value (3073 / 2048) 104 = 39949 / 256"
proof -
  have e1: "fmul (3073 / 2048) 104 = 39949 / 256"
    by (simp add: fmul_def rnd_cases [where e = "7"] round_half_even_def Let_def)
  show ?thesis
    by (simp add: position_value_def e1)
qed

lemma tp_level_100:
  "tp_level default_config 100 = 104"
proof -
  have e1: "fdiv 4 100 = 5764607523034235 / 144115188075855872"
    by (simp add: fdiv_def rnd_cases [where e = "- 5"] round_half_even_def Let_def)
  have e2: "fadd 1 (5764607523034235 / 144115188075855872) = 1170935903116329 / 1125899906842624"
    by (simp add: fadd_def rnd_cases [where e = "0"] round_half_even_def Let_def)
  have e3: "fmul 100 (1170935903116329 / 1125899906842624) = 104"
    by (simp add: fmul_def rnd_cases [where e = "6"] round_half_even_def Let_def)
  show ?thesis
    by (simp add: tp_level_def default_config_fields e1 e2 e3)
qed

lemma change_pct_104_100:
  "change_pct 104 100 = 4"
proof -
  have e1: "fsub 104 100 = 4"
    by (simp add: fsub_def rnd_cases [where e = "2"] round_half_even_def Let_def)
  have e2: "fdiv 4 100 = 5764607523034235 / 144115188075855872"
    by (simp add: fdiv_def rnd_cases [where e = "- 5"] round_half_even_def Let_def)
  have e3: "fmul (5764607523034235 / 144115188075855872) 100 = 4"
    by (simp add: fmul_def rnd_cases [where e = "2"] round_half_even_def Let_def)
  show ?thesis
    by (simp add: change_pct_def e1 e2 e3)
qed

lemma quantize_sell_104:
  "quantize_qty default_config (3073 / 2048) = Inr (3 / 2)"
proof -
  have e1: "fdiv (3073 / 2048) (1152921504606847 / 1152921504606846976) = 384125 / 256"
    by (simp add: fdiv_def rnd_cases [where e = "10"] round_half_even_def Let_def)
  have e2: "fmul 1500 (1152921504606847 / 1152921504606846976) = 3 / 2"
    by (simp add: fmul_def rnd_cases [where e = "0"] round_half_even_def Let_def)
  have e3: "py_round (3 / 2) 6 = 3 / 2"
    by (simp add: py_round_def round_half_even_def Let_def rnd_cases [where e = "0"])
  show ?thesis
    by (simp add: quantize_qty_def default_config_fields e1 e2 e3)
qed

lemma position_value_0_90000:
  "position_value 0 90000 = 0"
proof -
  have e1: "fmul 0 90000 = 0"
    by (simp add: fmul_def rnd_cases [where e = "- 1022"] round_half_even_def Let_def)
  show ?thesis
    by (simp add: position_value_def e1)
qed

lemma change_pct_90000:
  "change_pct 90000 100000 = - 10"
proof -
  have e1: "fsub 90000 100000 = - 10000"
    by (simp add: fsub_def rnd_cases [where e = "13"] round_half_even_def Let_def)
  have e2: "fdiv (- 10000) 100000 = - (3602879701896397 / 36028797018963968)"
    by (simp add: fdiv_def rnd_cases [where e = "- 4"] round_half_even_def Let_def)
  have e3: "fmul (- (3602879701896397 / 36028797018963968)) 100 = - 10"
    by (simp add: fmul_def rnd_cases [where e = "3"] round_half_even_def Let_def)
  show ?thesis
    by (simp add: change_pct_def e1 e2 e3)
qed

lemma dip_level_100000:
  "dip_level default_config 100000 = 95000"
proof -
  have e1: "fdiv 5 100 = 3602879701896397 / 72057594037927936"
    by (simp add: fdiv_def rnd_cases [where e = "- 5"] round_half_even_def Let_def)
  have e2: "fsub 1 (3602879701896397 / 72057594037927936) = 4278419646001971 / 4503599627370496"
    by (simp add: fsub_def rnd_cases [where e = "- 1"] round_half_even_def Let_def)
  have e3: "fmul 100000 (4278419646001971 / 4503599627370496) = 95000"
    by (simp add: fmul_def rnd_cases [where e = "16"] round_half_even_def Let_def)
  show ?thesis
    by (simp add: dip_level_def default_config_fields e1 e2 e3)
qed

lemma est_qty_90000:
  "est_qty default_config 90000 = 5124095576030431 / 18446744073709551616"
proof -
  have e1: "fdiv 25 90000 = 5124095576030431 / 18446744073709551616"
    by (simp add: fdiv_def rnd_cases [where e = "- 12"] round_half_even_def Let_def)
  show ?thesis
    by (simp add: est_qty_def default_config_fields e1)
qed

lemma quantize_buy_90000:
  "quantize_qty default_config (5124095576030431 / 18446744073709551616) = Inr 0"
proof -
  have e1: "fdiv (5124095576030431 / 18446744073709551616) (1152921504606847 / 1152921504606846976) = 2501999792983609 / 9007199254740992"
    by (simp add: fdiv_def rnd_cases [where e = "- 2"] round_half_even_def Let_def)
  have e2: "fmul 0 (1152921504606847 / 1152921504606846976) = 0"
    by (simp add: fmul_def rnd_cases [where e = "- 1022"] round_half_even_def Let_def)
  have e3: "py_round 0 6 = 0"
    by (simp add: py_round_def round_half_even_def Let_def rnd_cases [where e = "- 1022"])
  show ?thesis
    by (simp add: quantize_qty_def default_config_fields e1 e2 e3)
qed

lemma position_value_1_94:
  "position_value 1 94 = 94"
proof -
  have e1: "fmul 1 94 = 94"
    by (simp add: fmul_def rnd_cases [where e = "6"] round_half_even_def Let_def)
  show ?thesis
    by (simp add: position_value_def e1)
qed

lemma position_value_0_43_7:
  "position_value 0 (3075114120563917 / 70368744177664) = 0"
proof -
  have e1: "fmul 0 (3075114120563917 / 70368744177664) = 0"
    by (simp add: fmul_def rnd_cases [where e = "- 1022"] round_half_even_def Let_def)
  show ?thesis
    by (simp add: position_value_def e1)
qed

lemma change_pct_43_7_46:
  "change_pct (3075114120563917 / 70368744177664) 46 = - (5629499534213113 / 1125899906842624)"
proof -
  have e1: "fsub (3075114120563917 / 70368744177664) 46 = - (161848111608627 / 70368744177664)"
    by (simp add: fsub_def rnd_cases [where e = "1"] round_half_even_def Let_def)
  have e2: "fdiv (- (161848111608627 / 70368744177664)) 46 = - (7205759403792785 / 144115188075855872)"
    by (simp add: fdiv_def rnd_cases [where e = "- 5"] round_half_even_def Let_def)
  have e3: "fmul (- (7205759403792785 / 144115188075855872)) 100 = - (5629499534213113 / 1125899906842624)"
    by (simp add: fmul_def rnd_cases [where e = "2"] round_half_even_def Let_def)
  show ?thesis
    by (simp add: change_pct_def e1 e2 e3)
qed

lemma dip_level_46:
  "dip_level default_config 46 = 6150228241127833 / 140737488355328"
proof -
  have e1: "fdiv 5 100 = 3602879701896397 / 72057594037927936"
    by (simp add: fdiv_def rnd_cases [where e = "- 5"] round_half_even_def Let_def)
  have e2: "fsub 1 (3602879701896397 / 72057594037927936) = 4278419646001971 / 4503599627370496"
    by (simp add: fsub_def rnd_cases [where e = "- 1"] round_half_even_def Let_def)
  have e3: "fmul 46 (4278419646001971 / 4503599627370496) = 6150228241127833 / 140737488355328"
    by (simp add: fmul_def rnd_cases [where e = "5"] round_half_even_def Let_def)
  show ?thesis
    by (simp add: dip_level_def default_config_fields e1 e2 e3)
qed

lemma quantize_0_141:
  "quantize_qty default_config (5080060379673919 / 36028797018963968) = Inr (1261007895663739 / 9007199254740992)"
proof -
  have e1: "fdiv (5080060379673919 / 36028797018963968) (1152921504606847 / 1152921504606846976) = 4960996464525311 / 35184372088832"
    by (simp add: fdiv_def rnd_cases [where e = "7"] round_half_even_def Let_def)
  have e2: "fmul 140 (1152921504606847 / 1152921504606846976) = 1261007895663739 / 9007199254740992"
    by (simp add: fmul_def rnd_cases [where e = "- 3"] round_half_even_def Let_def)
  have e3: "py_round (1261007895663739 / 9007199254740992) 6 = 1261007895663739 / 9007199254740992"
    by (simp add: py_round_def round_half_even_def Let_def rnd_cases [where e = "- 3"])
  show ?thesis
    by (simp add: quantize_qty_def default_config_fields e1 e2 e3)
qed

lemma position_value_0_087_104:
  "position_value (3134505340649865 / 36028797018963968) 104 = 5093571178556031 / 562949953421312"
proof -
  have e1: "fmul (3134505340649865 / 36028797018963968) 104 = 5093571178556031 / 562949953421312"
    by (simp add: fmul_def rnd_cases [where e = "3"] round_half_even_def Let_def)
  show ?thesis
    by (simp add: position_value_def e1)
qed

lemma quantize_0_087:
  "quantize_qty default_config (3134505340649865 / 36028797018963968) = Inr (3098476543630901 / 36028797018963968)"
proof -
  have e1: "fdiv (3134505340649865 / 36028797018963968) (1152921504606847 / 1152921504606846976) = 6122080743456767 / 70368744177664"
    by (simp add: fdiv_def rnd_cases [where e = "6"] round_half_even_def Let_def)
  have e2: "fmul 86 (1152921504606847 / 1152921504606846976) = 6196953087261803 / 72057594037927936"
    by (simp add: fmul_def rnd_cases [where e = "- 4"] round_half_even_def Let_def)
  have e3: "py_round (6196953087261803 / 72057594037927936) 6 = 3098476543630901 / 36028797018963968"
    by (simp add: py_round_def round_half_even_def Let_def rnd_cases [where e = "- 4"])
  show ?thesis
    by (simp add: quantize_qty_def default_config_fields e1 e2 e3)
qed

lemma change_pct_177_190:
  "change_pct 177 190 = - (3851762839198451 / 562949953421312)"
proof -
  have e1: "fsub 177 190 = - 13"
    by (simp add: fsub_def rnd_cases [where e = "3"] round_half_even_def Let_def)
  have e2: "fdiv (- 13) 190 = - (4930256434174017 / 72057594037927936)"
    by (simp add: fdiv_def rnd_cases [where e = "- 4"] round_half_even_def Let_def)
  have e3: "fmul (- (4930256434174017 / 72057594037927936)) 100 = - (3851762839198451 / 562949953421312)"
    by (simp add: fmul_def rnd_cases [where e = "2"] round_half_even_def Let_def)
  show ?thesis
    by (simp add: change_pct_def e1 e2 e3)
qed

lemma dip_level_190:
  "dip_level default_config 190 = 361 / 2"
proof -
  have e1: "fdiv 5 100 = 3602879701896397 / 72057594037927936"
    by (simp add: fdiv_def rnd_cases [where e = "- 5"] round_half_even_def Let_def)
  have e2: "fsub 1 (3602879701896397 / 72057594037927936) = 4278419646001971 / 4503599627370496"
    by (simp add: fsub_def rnd_cases [where e = "- 1"] round_half_even_def Let_def)
  have e3: "fmul 190 (4278419646001971 / 4503599627370496) = 361 / 2"
    by (simp add: fmul_def rnd_cases [where e = "7"] round_half_even_def Let_def)
  show ?thesis
    by (simp add: dip_level_def default_config_fields e1 e2 e3)
qed

lemma position_value_0_177:
  "position_value 0 177 = 0"
proof -
  have e1: "fmul 0 177 = 0"
    by (simp add: fmul_def rnd_cases [where e = "- 1022"] round_half_even_def Let_def)
  show ?thesis
    by (simp add: position_value_def e1)
qed

lemma est_qty_177:
  "est_qty default_config 177 = 5088813138271747 / 36028797018963968"
proof -
  have e1: "fdiv 25 177 = 5088813138271747 / 36028797018963968"
    by (simp add: fdiv_def rnd_cases [where e = "- 3"] round_half_even_def Let_def)
  show ?thesis
    by (simp add: est_qty_def default_config_fields e1)
qed

lemma quantize_buy_177:
  "quantize_qty default_config (5088813138271747 / 36028797018963968) = Inr (5080060379673919 / 36028797018963968)"
proof -
  have e1: "fdiv (5088813138271747 / 36028797018963968) (1152921504606847 / 1152921504606846976) = 4969544080343503 / 35184372088832"
    by (simp add: fdiv_def rnd_cases [where e = "7"] round_half_even_def Let_def)
  have e2: "fmul 141 (1152921504606847 / 1152921504606846976) = 79375943432405 / 562949953421312"
    by (simp add: fmul_def rnd_cases [where e = "- 3"] round_half_even_def Let_def)
  have e3: "py_round (79375943432405 / 562949953421312) 6 = 5080060379673919 / 36028797018963968"
    by (simp add: py_round_def round_half_even_def Let_def rnd_cases [where e = "- 3"])
  show ?thesis
    by (simp add: quantize_qty_def default_config_fields e1 e2 e3)
qed

lemma demo_env_fields:
  "db_read_ok (demo_env p sol usdt rd wr reply) = rd"
  "db_write_ok (demo_env p sol usdt rd wr reply) = wr"
  "order_reply (demo_env p sol usdt rd wr reply) = reply"
  by (simp_all add: demo_env_def)

text \<open>A flat account, 100 stored, the price at 94: the dip buy of 0.265 SOL.\<close>

lemma tick_buy_94:
  "tick default_config pf_table
     (demo_env (JStr ''94'') (JNum 0) (JStr ''30'') True wr reply) (Some 100) =
   (if order_accepted (demo_env (JStr ''94'') (JNum 0) (JStr ''30'') True wr reply)
    then \<lparr>new_store = (if wr then Some 94 else Some 100),
          events = [PlaceOrder Buy (rnd (53 / 200)), StoreWrite 94]
                   @ (if wr then [] else [Stderr ErrDbWrite])
                   @ [Telegram (DipBuyNotice (rnd (53 / 200)) 94 100 (- 6) 94)],
          uncaught = None\<rparr>
    else \<lparr>new_store = Some 100,
          events = [PlaceOrder Buy (rnd (53 / 200)), Stderr ErrBuy],
          uncaught = None\<rparr>)"
proof -
  let ?en = "demo_env (JStr ''94'') (JNum 0) (JStr ''30'') True wr reply"
  have f: "fetch pf_table ?en = Inr (94, 0, 30)"
    by (simp add: demo_defs)
  have g: "get_base_price ?en (Some 100) = Inr (Some 100)"
    by (simp add: get_base_price_def demo_env_fields)
  have t: "tick default_config pf_table ?en (Some 100) =
             buy_branch default_config ?en (Some 100) 94 30 100 (- 6)"
    using tick_with_base [OF f g, of default_config]
    by (simp add: default_config_fields position_value_0_94 change_pct_94_100)
  have pm: "place_market_order default_config ?en Buy (rnd (53 / 200)) =
              (if order_accepted ?en then Inr ()
               else Inl (if reply = None then GatewayError else RuntimeError),
               [PlaceOrder Buy (rnd (53 / 200))])"
    by (simp add: place_market_order_def double_0_265 quantize_again_94 order_accepted_def
        demo_env_fields split: option.splits)
  have b: "buy_branch default_config ?en (Some 100) 94 30 100 (- 6) =
             (case place_market_order default_config ?en Buy (rnd (53 / 200)) of
                (Inl e, oevs) \<Rightarrow>
                  \<lparr>new_store = Some 100, events = oevs @ [Stderr ErrBuy], uncaught = None\<rparr>
              | (Inr resp, oevs) \<Rightarrow>
                  \<lparr>new_store = (if wr then Some 94 else Some 100),
                   events = oevs @ [StoreWrite 94] @ (if wr then [] else [Stderr ErrDbWrite])
                            @ [Telegram (DipBuyNotice (rnd (53 / 200)) 94 100 (- 6) 94)],
                   uncaught = None\<rparr>)"
    by (simp add: buy_branch_def default_config_fields dip_level_100 est_qty_94 quantize_buy_94 double_0_265
        set_base_price_def demo_env_fields split: prod.splits sum.splits)
  show ?thesis
    by (simp add: t b pm)
qed

text \<open>
  A flat account, 190 stored, the price at 177: the loop computes a buy of 0.141 SOL,
  and the second quantization inside \<^verbatim>\<open>place_market_order\<close> orders 0.14 SOL.
\<close>

lemma tick_buy_177:
  "tick default_config pf_table
     (demo_env (JStr ''177'') (JNum 0) (JStr ''30'') True wr reply) (Some 190) =
   (if order_accepted (demo_env (JStr ''177'') (JNum 0) (JStr ''30'') True wr reply)
    then \<lparr>new_store = (if wr then Some 177 else Some 190),
          events = [PlaceOrder Buy (rnd (140 / 1000)), StoreWrite 177]
                   @ (if wr then [] else [Stderr ErrDbWrite])
                   @ [Telegram (DipBuyNotice (rnd (141 / 1000)) 177 190 (change_pct 177 190) 177)],
          uncaught = None\<rparr>
    else \<lparr>new_store = Some 190,
          events = [PlaceOrder Buy (rnd (140 / 1000)), Stderr ErrBuy],
          uncaught = None\<rparr>)"
proof -
  let ?en = "demo_env (JStr ''177'') (JNum 0) (JStr ''30'') True wr reply"
  have f: "fetch pf_table ?en = Inr (177, 0, 30)"
    by (simp add: demo_defs)
  have g: "get_base_price ?en (Some 190) = Inr (Some 190)"
    by (simp add: get_base_price_def demo_env_fields)
  have t: "tick default_config pf_table ?en (Some 190) =
             buy_branch default_config ?en (Some 190) 177 30 190 (change_pct 177 190)"
    using tick_with_base [OF f g, of default_config]
    by (simp add: default_config_fields position_value_0_177)
  have pm: "place_market_order default_config ?en Buy (rnd (141 / 1000)) =
              (if order_accepted ?en then Inr ()
               else Inl (if reply = None then GatewayError else RuntimeError),
               [PlaceOrder Buy (rnd (140 / 1000))])"
    by (simp add: place_market_order_def double_0_141 double_0_14 quantize_0_141 order_accepted_def
        demo_env_fields split: option.splits)
  have b: "buy_branch default_config ?en (Some 190) 177 30 190 (change_pct 177 190) =
             (case place_market_order default_config ?en Buy (rnd (141 / 1000)) of
                (Inl e, oevs) \<Rightarrow>
                  \<lparr>new_store = Some 190, events = oevs @ [Stderr ErrBuy], uncaught = None\<rparr>
              | (Inr resp, oevs) \<Rightarrow>
                  \<lparr>new_store = (if wr then Some 177 else Some 190),
                   events = oevs @ [StoreWrite 177] @ (if wr then [] else [Stderr ErrDbWrite])
                            @ [Telegram (DipBuyNotice (rnd (141 / 1000)) 177 190 (change_pct 177 190) 177)],
                   uncaught = None\<rparr>)"
    by (simp add: buy_branch_def default_config_fields dip_level_190 est_qty_177 quantize_buy_177 double_0_141 double_0_14
        set_base_price_def demo_env_fields split: prod.splits sum.splits)
  show ?thesis
    by (simp add: t b pm)
qed

text \<open>
  Holdings of 1.50048828125 SOL (a double as it stands), 100 stored, the price at 104:
  the sale of 1.5 SOL.
\<close>

lemma tick_sell_104:
  "tick default_config pf_table
     (demo_env (JStr ''104'') (JNum (3073 / 2048)) (JStr ''30'') True wr reply) (Some 100) =
   (if order_accepted (demo_env (JStr ''104'') (JNum (3073 / 2048)) (JStr ''30'') True wr reply)
    then \<lparr>new_store = (if wr then Some 104 else Some 100),
          events = [PlaceOrder Sell (3 / 2), Telegram (TakeProfitNotice (3073 / 2048) 104 100 4),
                    StoreWrite 104]
                   @ (if wr then [] else [Stderr ErrDbWrite]),
          uncaught = None\<rparr>
    else \<lparr>new_store = Some 100,
          events = [PlaceOrder Sell (3 / 2), Stderr ErrSell],
          uncaught = None\<rparr>)"
proof -
  let ?en = "demo_env (JStr ''104'') (JNum (3073 / 2048)) (JStr ''30'') True wr reply"
  have f: "fetch pf_table ?en = Inr (104, 3073 / 2048, 30)"
    by (simp add: demo_defs)
  have g: "get_base_price ?en (Some 100) = Inr (Some 100)"
    by (simp add: get_base_price_def demo_env_fields)
  have t: "tick default_config pf_table ?en (Some 100) =
             sell_branch default_config ?en (Some 100) 104 (3073 / 2048) 100 4"
    using tick_with_base [OF f g, of default_config]
    by (simp add: default_config_fields  position_value_sell_104 change_pct_104_100)
  have pm: "place_market_order default_config ?en Sell (3073 / 2048) =
              (if order_accepted ?en then Inr ()
               else Inl (if reply = None then GatewayError else RuntimeError),
               [PlaceOrder Sell (3 / 2)])"
    by (simp add: place_market_order_def  quantize_sell_104 order_accepted_def
        demo_env_fields split: option.splits)
  have b: "sell_branch default_config ?en (Some 100) 104 (3073 / 2048) 100 4 =
             (case place_market_order default_config ?en Sell (3073 / 2048) of
                (Inl e, oevs) \<Rightarrow>
                  \<lparr>new_store = Some 100, events = oevs @ [Stderr ErrSell], uncaught = None\<rparr>
              | (Inr resp, oevs) \<Rightarrow>
                  \<lparr>new_store = (if wr then Some 104 else Some 100),
                   events = oevs @ [Telegram (TakeProfitNotice (3073 / 2048) 104 100 4),
                                     StoreWrite 104]
                            @ (if wr then [] else [Stderr ErrDbWrite]),
                   uncaught = None\<rparr>)"
    by (simp add: sell_branch_def tp_level_100 set_base_price_def
        demo_env_fields split: prod.splits sum.splits)
  show ?thesis
    by (simp add: t b pm)
qed

text \<open>
  Holdings of 0.087 SOL, 100 stored, the price at 104: the sale of 0.086 SOL.
\<close>

lemma tick_sell_0_087:
  "tick default_config pf_table
     (demo_env (JStr ''104'') (JStr ''0.087'') (JStr ''30'') True wr reply) (Some 100) =
   (if order_accepted (demo_env (JStr ''104'') (JStr ''0.087'') (JStr ''30'') True wr reply)
    then \<lparr>new_store = (if wr then Some 104 else Some 100),
          events = [PlaceOrder Sell (rnd (43 / 500)), Telegram (TakeProfitNotice (rnd (87 / 1000)) 104 100 4),
                    StoreWrite 104]
                   @ (if wr then [] else [Stderr ErrDbWrite]),
          uncaught = None\<rparr>
    else \<lparr>new_store = Some 100,
          events = [PlaceOrder Sell (rnd (43 / 500)), Stderr ErrSell],
          uncaught = None\<rparr>)"
proof -
  let ?en = "demo_env (JStr ''104'') (JStr ''0.087'') (JStr ''30'') True wr reply"
  have f: "fetch pf_table ?en = Inr (104, rnd (87 / 1000), 30)"
    by (simp add: demo_defs)
  have g: "get_base_price ?en (Some 100) = Inr (Some 100)"
    by (simp add: get_base_price_def demo_env_fields)
  have t: "tick default_config pf_table ?en (Some 100) =
             sell_branch default_config ?en (Some 100) 104 (rnd (87 / 1000)) 100 4"
    using tick_with_base [OF f g, of default_config]
    by (simp add: default_config_fields double_0_087 double_0_086 position_value_0_087_104 change_pct_104_100)
  have pm: "place_market_order default_config ?en Sell (rnd (87 / 1000)) =
              (if order_accepted ?en then Inr ()
               else Inl (if reply = None then GatewayError else RuntimeError),
               [PlaceOrder Sell (rnd (43 / 500))])"
    by (simp add: place_market_order_def double_0_087 double_0_086 quantize_0_087 order_accepted_def
        demo_env_fields split: option.splits)
  have b: "sell_branch default_config ?en (Some 100) 104 (rnd (87 / 1000)) 100 4 =
             (case place_market_order default_config ?en Sell (rnd (87 / 1000)) of
                (Inl e, oevs) \<Rightarrow>
                  \<lparr>new_store = Some 100, events = oevs @ [Stderr ErrSell], uncaught = None\<rparr>
              | (Inr resp, oevs) \<Rightarrow>
                  \<lparr>new_store = (if wr then Some 104 else Some 100),
                   events = oevs @ [Telegram (TakeProfitNotice (rnd (87 / 1000)) 104 100 4),
                                     StoreWrite 104]
                            @ (if wr then [] else [Stderr ErrDbWrite]),
                   uncaught = None\<rparr>)"
    by (simp add: sell_branch_def tp_level_100 set_base_price_def
        demo_env_fields split: prod.splits sum.splits)
  show ?thesis
    by (simp add: t b pm)
qed

text \<open>A flat account, 100000 stored, the price at 90000: 25 USDT buy less than one step.\<close>

lemma tick_buy_90000:
  "tick default_config pf_table
     (demo_env (JStr ''90000'') (JNum 0) (JStr ''30'') True True order_ok) (Some 100000) =
   \<lparr>new_store = Some 100000, events = [Stderr ErrBuy], uncaught = None\<rparr>"
proof -
  let ?en = "demo_env (JStr ''90000'') (JNum 0) (JStr ''30'') True True order_ok"
  have f: "fetch pf_table ?en = Inr (90000, 0, 30)"
    by (simp add: demo_defs)
  have g: "get_base_price ?en (Some 100000) = Inr (Some 100000)"
    by (simp add: get_base_price_def demo_env_fields)
  have t: "tick default_config pf_table ?en (Some 100000) =
             buy_branch default_config ?en (Some 100000) 90000 30 100000 (- 10)"
    using tick_with_base [OF f g, of default_config]
    by (simp add: default_config_fields position_value_0_90000 change_pct_90000)
  have pm: "place_market_order default_config ?en Buy 0 = (Inl RuntimeError, [])"
    by (simp add: place_market_order_def quantize_qty_zero)
  show ?thesis
    by (simp add: t buy_branch_def default_config_fields dip_level_100000 est_qty_90000
        quantize_buy_90000 pm)
qed

text \<open>
  A flat account, 46 stored, the price at 43.7, too little USDT. The level the source
  computes, \<^verbatim>\<open>46.0 * (1.0 - 5.0 / 100.0)\<close>, is the double just below 43.7, so the price
  is not at or below it and the tick does nothing.
\<close>

lemma tick_no_dip_46:
  "dip_level default_config 46 < rnd (437 / 10)
   \<and> tick default_config pf_table
        (demo_env (JStr ''43.7'') (JNum 0) (JStr ''12.5'') True True order_ok) (Some 46) =
      \<lparr>new_store = Some 46, events = [], uncaught = None\<rparr>"
proof -
  let ?en = "demo_env (JStr ''43.7'') (JNum 0) (JStr ''12.5'') True True order_ok"
  have f: "fetch pf_table ?en = Inr (rnd (437 / 10), 0, 25 / 2)"
    by (simp add: demo_defs)
  have g: "get_base_price ?en (Some 46) = Inr (Some 46)"
    by (simp add: get_base_price_def demo_env_fields)
  have l: "dip_level default_config 46 < rnd (437 / 10)"
    by (simp add: dip_level_46 double_43_7)
  have t: "tick default_config pf_table ?en (Some 46) =
             buy_branch default_config ?en (Some 46) (rnd (437 / 10)) (25 / 2) 46
               (change_pct (rnd (437 / 10)) 46)"
    using tick_with_base [OF f g, of default_config]
    by (simp add: default_config_fields double_43_7 position_value_0_43_7)
  from l show ?thesis
    by (simp add: t buy_branch_def Let_def)
qed

section \<open>The claims about a tick\<close>

text \<open>
  Claim C1, as the code has it. When the read of the base price fails, the handler logs
  the error and sets \<^verbatim>\<open>base_price = None\<close>, so the tick goes on as if the pair were
  uninitialized: it attempts no trade, calls \<^verbatim>\<open>set_base_price\<close> with the observed
  price and sends the start-up message. The store then holds the observed price when
  that write succeeds, and keeps its old content when it fails.
\<close>

theorem read_failure_recalibrates:
  assumes "fetch pf en = Inr (price, sol_total, usdt_available)"
    and "\<not> db_read_ok en"
  shows "tick cfg pf en st =
           \<lparr>new_store = (if db_write_ok en then Some price else st),
            events = [Stderr ErrDbRead, StoreWrite price]
                     @ (if db_write_ok en then [] else [Stderr ErrDbWrite])
                     @ [Telegram (InitNotice price)],
            uncaught = None\<rparr>
         \<and> orders (events (tick cfg pf en st)) = []
         \<and> writes (events (tick cfg pf en st)) = [price]"
proof -
  from assms(2) have "get_base_price en st = Inl DBError"
    by (simp add: get_base_price_def)
  with assms(1) have "tick cfg pf en st = init_branch en st [Stderr ErrDbRead] price"
    by (rule tick_read_failed)
  then show ?thesis by (simp add: init_branch_eq)
qed

theorem read_failure_recalibrates_witness:
  "\<not> db_read_ok (demo_env (JStr ''94'') (JNum 1) (JStr ''30'') False False order_ok)
   \<and> tick default_config pf_table
        (demo_env (JStr ''94'') (JNum 1) (JStr ''30'') False False order_ok) (Some 100) =
      \<lparr>new_store = Some 100,
       events = [Stderr ErrDbRead, StoreWrite 94, Stderr ErrDbWrite, Telegram (InitNotice 94)],
       uncaught = None\<rparr>"
proof -
  let ?en = "demo_env (JStr ''94'') (JNum 1) (JStr ''30'') False False order_ok"
  have f: "fetch pf_table ?en = Inr (94, 1, 30)"
    by (simp add: demo_defs)
  have r: "\<not> db_read_ok ?en"
    by (simp add: demo_env_def)
  show ?thesis
    using r read_failure_recalibrates [OF f r, of default_config "Some 100"]
    by (simp add: demo_env_def)
qed

text \<open>
  The claim as the specification words it fails: with 100 stored, one SOL held and the
  price at 102, a failed read makes the tick write 102 over the stored 100.
\<close>

theorem read_failure_counterexample:
  "\<not> db_read_ok (demo_env (JStr ''102'') (JNum 1) (JStr ''30'') False True order_ok)
   \<and> tick default_config pf_table
        (demo_env (JStr ''102'') (JNum 1) (JStr ''30'') False True order_ok) (Some 100) =
      \<lparr>new_store = Some 102,
       events = [Stderr ErrDbRead, StoreWrite 102, Telegram (InitNotice 102)],
       uncaught = None\<rparr>
   \<and> Some (102 :: real) \<noteq> Some 100"
  by (simp add: demo_defs tick_def init_branch_def set_base_price_def Let_def)


text \<open>
  Claim C2. On a tick whose order the exchange accepted, sell or buy alike, the engine
  calls \<^verbatim>\<open>set_base_price\<close> exactly once, with the price observed on that tick; when
  that write succeeds the store holds this price afterwards. The stored reference is
  never removed: after the tick there is one, and a run of any number of ticks that
  starts with a stored reference ends with one.
\<close>

theorem executed_trade_rebases_reference:
  assumes "fetch pf en = Inr (price, sol_total, usdt_available)"
    and "PlaceOrder sd q \<in> set (events (tick cfg pf en st))"
    and "order_accepted en"
  shows "writes (events (tick cfg pf en st)) = [price]
         \<and> (db_write_ok en \<longrightarrow> new_store (tick cfg pf en st) = Some price)
         \<and> new_store (tick cfg pf en st) \<noteq> None
         \<and> (\<forall>ens b. new_store (main_loop cfg pf ens (Some b)) \<noteq> None)"
proof -
  from tick_with_order [OF assms(2)] assms(1,3)
  obtain base n where g: "get_base_price en st = Inr (Some base)"
    and t: "tick cfg pf en st =
              \<lparr>new_store = (if db_write_ok en then Some price else st),
               events = trade_events en sd q n price, uncaught = None\<rparr>"
    by auto
  from g have "st = Some base"
    by (simp add: get_base_price_def split: if_splits)
  with t show ?thesis
    by (simp add: writes_trade_events main_loop_keeps_reference)
qed


theorem executed_trade_rebases_reference_witness:
  "order_accepted (demo_env (JStr ''94'') (JNum 0) (JStr ''30'') True True order_ok)
   \<and> db_write_ok (demo_env (JStr ''94'') (JNum 0) (JStr ''30'') True True order_ok)
   \<and> PlaceOrder Buy (rnd (53 / 200)) \<in> set (events (tick default_config pf_table
        (demo_env (JStr ''94'') (JNum 0) (JStr ''30'') True True order_ok) (Some 100)))
   \<and> writes (events (tick default_config pf_table
        (demo_env (JStr ''94'') (JNum 0) (JStr ''30'') True True order_ok) (Some 100))) = [94]
   \<and> new_store (tick default_config pf_table
        (demo_env (JStr ''94'') (JNum 0) (JStr ''30'') True True order_ok) (Some 100)) = Some 94"
proof -
  let ?en = "demo_env (JStr ''94'') (JNum 0) (JStr ''30'') True True order_ok"
  have f: "fetch pf_table ?en = Inr (94, 0, 30)"
    by (simp add: demo_defs)
  have a: "order_accepted ?en"
    by (simp add: order_accepted_def demo_env_fields order_ok_def)
  have o: "PlaceOrder Buy (rnd (53 / 200)) \<in> set (events (tick default_config pf_table ?en (Some 100)))"
    by (simp add: tick_buy_94 a)
  have w: "db_write_ok ?en"
    by (simp add: demo_env_def)
  show ?thesis
    using a w o executed_trade_rebases_reference [OF f o a]
    by simp
qed


text \<open>
  Claim C4. On a tick that finds no reference price in the store, no order is placed;
  the engine calls \<^verbatim>\<open>set_base_price\<close> once, with the observed price, and sends the
  start-up message. When that write succeeds the store holds exactly the observed price
  after the tick.
\<close>

theorem first_tick_calibrates:
  assumes "fetch pf en = Inr (price, sol_total, usdt_available)"
  shows "orders (events (tick cfg pf en None)) = []
         \<and> writes (events (tick cfg pf en None)) = [price]
         \<and> telegrams (events (tick cfg pf en None)) = [InitNotice price]
         \<and> uncaught (tick cfg pf en None) = None
         \<and> new_store (tick cfg pf en None) = (if db_write_ok en then Some price else None)"
proof (cases "db_read_ok en")
  case True
  then have "get_base_price en None = Inr None" by (simp add: get_base_price_def)
  with assms have "tick cfg pf en None = init_branch en None [] price"
    by (rule tick_no_base)
  then show ?thesis by (simp add: init_branch_eq)
next
  case False
  then have "get_base_price en None = Inl DBError" by (simp add: get_base_price_def)
  with assms have "tick cfg pf en None = init_branch en None [Stderr ErrDbRead] price"
    by (rule tick_read_failed)
  then show ?thesis by (simp add: init_branch_eq)
qed

theorem first_tick_calibrates_witness:
  "db_write_ok (demo_env (JStr ''94'') (JNum 0) (JStr ''30'') True True order_ok)
   \<and> orders (events (tick default_config pf_table
        (demo_env (JStr ''94'') (JNum 0) (JStr ''30'') True True order_ok) None)) = []
   \<and> new_store (tick default_config pf_table
        (demo_env (JStr ''94'') (JNum 0) (JStr ''30'') True True order_ok) None) = Some 94"
proof -
  let ?en = "demo_env (JStr ''94'') (JNum 0) (JStr ''30'') True True order_ok"
  have f: "fetch pf_table ?en = Inr (94, 0, 30)"
    by (simp add: demo_defs)
  have w: "db_write_ok ?en"
    by (simp add: demo_env_def)
  show ?thesis
    using w first_tick_calibrates [OF f, of default_config]
    by simp
qed


text \<open>
  Claim C5. With a position (holdings value at least \<^verbatim>\<open>MIN_POSITION_USDT\<close>) and the
  price strictly below the take-profit level, both as the source computes them, the tick
  does nothing: no order, no write to the store, no message. The dip threshold plays no
  part, so this holds also when the price is below it, as in the witness (94 against a
  reference of 100).
\<close>

theorem in_position_below_take_profit_waits:
  assumes "fetch pf en = Inr (price, sol_total, usdt_available)"
    and "get_base_price en st = Inr (Some base_price)"
    and "base_price \<noteq> 0"
    and "MIN_POSITION_USDT cfg \<le> position_value sol_total price"
    and "price < tp_level cfg base_price"
  shows "tick cfg pf en st = \<lparr>new_store = st, events = [], uncaught = None\<rparr>"
proof -
  have "tick cfg pf en st =
          sell_branch cfg en st price sol_total base_price (change_pct price base_price)"
    using tick_with_base [OF assms(1,2,3)] assms(4) by simp
  also have "\<dots> = \<lparr>new_store = st, events = [], uncaught = None\<rparr>"
    using assms(5) by (simp add: sell_branch_def Let_def)
  finally show ?thesis .
qed


theorem in_position_below_take_profit_waits_witness:
  "94 \<le> dip_level default_config 100
   \<and> tick default_config pf_table
        (demo_env (JStr ''94'') (JNum 1) (JStr ''30'') True True order_ok) (Some 100) =
      \<lparr>new_store = Some 100, events = [], uncaught = None\<rparr>"
proof -
  let ?en = "demo_env (JStr ''94'') (JNum 1) (JStr ''30'') True True order_ok"
  have f: "fetch pf_table ?en = Inr (94, 1, 30)"
    by (simp add: demo_defs)
  have g: "get_base_price ?en (Some 100) = Inr (Some 100)"
    by (simp add: demo_defs)
  show ?thesis
    using in_position_below_take_profit_waits [OF f g, of default_config]
    by (simp add: default_config_fields position_value_1_94 tp_level_100 dip_level_100)
qed






text \<open>
  Claim C7, as the code has it. When an order was handed to the exchange and the call
  raised or came back with a non-zero \<^verbatim>\<open>retCode\<close>, the tick leaves the store alone,
  does not call \<^verbatim>\<open>set_base_price\<close>, and sends no message at all, neither of success
  nor of failure: the failure is only printed to standard error.
\<close>

theorem failed_order_leaves_reference:
  assumes "PlaceOrder sd q \<in> set (events (tick cfg pf en st))"
    and "\<not> order_accepted en"
  shows "tick cfg pf en st =
           \<lparr>new_store = st,
            events = [PlaceOrder sd q, Stderr (if sd = Sell then ErrSell else ErrBuy)],
            uncaught = None\<rparr>
         \<and> writes (events (tick cfg pf en st)) = []
         \<and> telegrams (events (tick cfg pf en st)) = []"
proof -
  from tick_with_order [OF assms(1)] assms(2)
  have "tick cfg pf en st =
           \<lparr>new_store = st,
            events = [PlaceOrder sd q, Stderr (if sd = Sell then ErrSell else ErrBuy)],
            uncaught = None\<rparr>"
    by auto
  then show ?thesis by simp
qed

theorem failed_order_leaves_reference_witness:
  "\<not> order_accepted (demo_env (JStr ''104'') (JNum (3073 / 2048)) (JStr ''30'') True True order_rejected)
   \<and> tick default_config pf_table
        (demo_env (JStr ''104'') (JNum (3073 / 2048)) (JStr ''30'') True True order_rejected) (Some 100) =
      \<lparr>new_store = Some 100,
       events = [PlaceOrder Sell (3 / 2), Stderr ErrSell],
       uncaught = None\<rparr>"
proof -
  let ?en = "demo_env (JStr ''104'') (JNum (3073 / 2048)) (JStr ''30'') True True order_rejected"
  have a: "\<not> order_accepted ?en"
    by (simp add: order_accepted_def demo_env_fields order_rejected_def)
  have o: "PlaceOrder Sell (3 / 2) \<in> set (events (tick default_config pf_table ?en (Some 100)))"
    by (simp add: tick_sell_104 a)
  show ?thesis
    using a failed_order_leaves_reference [OF o a]
    by simp
qed

text \<open>
  The claim as the specification words it fails in its last part: a buy whose call to
  the exchange raises leaves an order and a line on standard error, and no message to
  the notifier.
\<close>

theorem failed_order_counterexample:
  "\<not> order_accepted (demo_env (JStr ''94'') (JNum 0) (JStr ''30'') True True None)
   \<and> events (tick default_config pf_table
        (demo_env (JStr ''94'') (JNum 0) (JStr ''30'') True True None) (Some 100)) =
      [PlaceOrder Buy (rnd (53 / 200)), Stderr ErrBuy]
   \<and> telegrams (events (tick default_config pf_table
        (demo_env (JStr ''94'') (JNum 0) (JStr ''30'') True True None) (Some 100))) = []"
  by (simp add: tick_buy_94 order_accepted_def demo_env_fields)


text \<open>
  Claim C8. When the quantized quantity of the tick's order is \<open>\<le> 0\<close> (the holdings on
  the sell side, \<^verbatim>\<open>ORDER_USDT / price\<close> on the buy side), no order is handed to the
  exchange, \<^verbatim>\<open>set_base_price\<close> is not called and the store is unchanged;
  \<^verbatim>\<open>place_market_order\<close> raises before the call to the exchange.
\<close>

theorem nonpositive_quantity_sends_no_order:
  assumes "fetch pf en = Inr (price, sol_total, usdt_available)"
    and "get_base_price en st = Inr (Some base_price)"
    and "quantize_qty cfg (if MIN_POSITION_USDT cfg \<le> position_value sol_total price then sol_total
                           else est_qty cfg price) = Inr q"
    and "q \<le> 0"
  shows "orders (events (tick cfg pf en st)) = []
         \<and> writes (events (tick cfg pf en st)) = []
         \<and> new_store (tick cfg pf en st) = st
         \<and> (\<forall>sd x q'. quantize_qty cfg x = Inr q' \<and> q' \<le> 0 \<longrightarrow>
               place_market_order cfg en sd x = (Inl RuntimeError, []))"
proof -
  have pm: "\<forall>sd x q'. quantize_qty cfg x = Inr q' \<and> q' \<le> 0 \<longrightarrow>
               place_market_order cfg en sd x = (Inl RuntimeError, [])"
    using place_market_order_nonpositive by blast
  have "orders (events (tick cfg pf en st)) = []
         \<and> writes (events (tick cfg pf en st)) = []
         \<and> new_store (tick cfg pf en st) = st"
  proof (cases "base_price = 0")
    case True
    with assms(1,2) show ?thesis by (simp add: tick_zero_base)
  next
    case nz: False
    note t = tick_with_base [OF assms(1,2) nz, of cfg]
    show ?thesis
    proof (cases "MIN_POSITION_USDT cfg \<le> position_value sol_total price")
      case True
      with assms(3) have "quantize_qty cfg sol_total = Inr q" by simp
      from place_market_order_nonpositive [OF this assms(4)]
      have "place_market_order cfg en Sell sol_total = (Inl RuntimeError, [])" .
      with t True show ?thesis by (simp add: sell_branch_def Let_def)
    next
      case False
      with assms(3) have e: "quantize_qty cfg (est_qty cfg price) = Inr q" by simp
      have "quantize_qty cfg q = Inr 0"
        using assms(4) by (simp add: quantize_qty_def)
      then have "place_market_order cfg en Buy q = (Inl RuntimeError, [])"
        by (rule place_market_order_nonpositive) simp
      with t False e show ?thesis by (simp add: buy_branch_def Let_def)
    qed
  qed
  with pm show ?thesis by blast
qed


theorem nonpositive_quantity_sends_no_order_witness:
  "quantize_qty default_config (est_qty default_config 90000) = Inr 0
   \<and> tick default_config pf_table
        (demo_env (JStr ''90000'') (JNum 0) (JStr ''30'') True True order_ok) (Some 100000) =
      \<lparr>new_store = Some 100000, events = [Stderr ErrBuy], uncaught = None\<rparr>
   \<and> orders (events (tick default_config pf_table
        (demo_env (JStr ''90000'') (JNum 0) (JStr ''30'') True True order_ok) (Some 100000))) = []"
proof -
  let ?en = "demo_env (JStr ''90000'') (JNum 0) (JStr ''30'') True True order_ok"
  have f: "fetch pf_table ?en = Inr (90000, 0, 30)"
    by (simp add: demo_defs)
  have g: "get_base_price ?en (Some 100000) = Inr (Some 100000)"
    by (simp add: demo_defs)
  have q: "quantize_qty default_config
             (if MIN_POSITION_USDT default_config \<le> position_value 0 90000 then 0
              else est_qty default_config 90000) = Inr 0"
    by (simp add: default_config_fields position_value_0_90000 est_qty_90000 quantize_buy_90000)
  have t: "tick default_config pf_table ?en (Some 100000) =
             \<lparr>new_store = Some 100000, events = [Stderr ErrBuy], uncaught = None\<rparr>"
    by (rule tick_buy_90000)
  show ?thesis
    using t nonpositive_quantity_sends_no_order [OF f g q]
    by (simp add: est_qty_90000 quantize_buy_90000)
qed


section \<open>The quantities of orders and the quantizer on whole steps\<close>

text \<open>
  What holds of every order: it carries \<^verbatim>\<open>quantize_qty\<close> of the quantity
  \<^verbatim>\<open>place_market_order\<close> was called with, a strictly positive number, a whole number
  of steps multiplied out in floats and rounded to 6 digits. A tick places at most one
  order; a sell is called with the total holdings, a buy with the already quantized
  \<^verbatim>\<open>ORDER_USDT / price\<close>.
\<close>

lemma orders_are_quantized:
  assumes "fetch pf en = Inr (price, sol_total, usdt_available)"
    and "PlaceOrder sd q \<in> set (events (tick cfg pf en st))"
  shows "(\<exists>x. quantize_qty cfg x = Inr q \<and> 0 < q
              \<and> q = py_round (fmul (of_int \<lfloor>fdiv x (QTY_STEP cfg)\<rfloor>) (QTY_STEP cfg)) 6
              \<and> (if sd = Sell then x = sol_total
                  else quantize_qty cfg (est_qty cfg price) = Inr x))
         \<and> orders (events (tick cfg pf en st)) = [(sd, q)]"
proof -
  from tick_with_order [OF assms(2)] assms(1)
  obtain base x n where x: "quantize_qty cfg x = Inr q" "0 < q"
    and sd: "sd = Sell \<and> x = sol_total
             \<or> sd = Buy \<and> quantize_qty cfg (est_qty cfg price) = Inr x"
    and t: "tick cfg pf en st =
               (if order_accepted en
                then \<lparr>new_store = (if db_write_ok en then Some price else st),
                      events = trade_events en sd q n price, uncaught = None\<rparr>
                else \<lparr>new_store = st,
                      events = [PlaceOrder sd q, Stderr (if sd = Sell then ErrSell else ErrBuy)],
                      uncaught = None\<rparr>)"
    by auto
  from quantize_qty_pos [OF x]
  have qv: "q = py_round (fmul (of_int \<lfloor>fdiv x (QTY_STEP cfg)\<rfloor>) (QTY_STEP cfg)) 6"
    by simp
  have a: "\<exists>x. quantize_qty cfg x = Inr q \<and> 0 < q
              \<and> q = py_round (fmul (of_int \<lfloor>fdiv x (QTY_STEP cfg)\<rfloor>) (QTY_STEP cfg)) 6
              \<and> (if sd = Sell then x = sol_total
                  else quantize_qty cfg (est_qty cfg price) = Inr x)"
    using x qv sd by (intro exI [of _ x]) auto
  have b: "orders (events (tick cfg pf en st)) = [(sd, q)]"
    using t by (simp add: trade_events_def)
  from a b show ?thesis by (rule conjI)
qed

text \<open>
  Claim C3 describes the quantizer as \<open>\<lfloor>qty / S\<rfloor> \<times> S\<close>, rounded to 6 digits. The source
  computes the quotient in floats before it takes the floor. With the default step,
  \<^verbatim>\<open>0.141 / 0.001\<close> is the double \<open>140.99999999999997\<close>, its floor is 140, and the
  result is 0.14: a quantity that is 141 steps comes back as 140 steps, and quantizing
  twice is not the same as quantizing once (the buy at 177 first gives 0.141, then
  0.14). In decimal terms the description gives 141 steps.
\<close>

theorem quantize_qty_loses_step:
  "fdiv (rnd (141 / 1000)) (QTY_STEP default_config) < 141
   \<and> \<lfloor>fdiv (rnd (141 / 1000)) (QTY_STEP default_config)\<rfloor> = 140
   \<and> quantize_qty default_config (rnd (141 / 1000)) = Inr (rnd (140 / 1000))
   \<and> rnd (140 / 1000) < rnd (141 / 1000)
   \<and> quantize_qty default_config (est_qty default_config 177) = Inr (rnd (141 / 1000))
   \<and> \<lfloor>(141 / 1000) / (1 / 1000) :: real\<rfloor> = 141"
proof -
  have d: "fdiv (5080060379673919 / 36028797018963968)
             (1152921504606847 / 1152921504606846976) = 4960996464525311 / 35184372088832"
    by (simp add: fdiv_def rnd_cases [where e = "7"] round_half_even_def Let_def)
  show ?thesis
    by (simp add: double_0_141 double_0_14 default_config_fields d quantize_0_141
        est_qty_177 quantize_buy_177)
qed

text \<open>
  Claim C10 ends on the sale of all holdings leaving a residue below one step. With
  holdings of 0.087 SOL and the default step the sale is of 0.086 SOL, and what is left
  is not below the step. On the buy side, at a price of 177 the loop computes 0.141 SOL
  and reports it in its message, and the order that \<^verbatim>\<open>place_market_order\<close> hands to
  the exchange, after its own quantization, is of 0.14 SOL.
\<close>

theorem sell_all_leaves_whole_step:
  "events (tick default_config pf_table
     (demo_env (JStr ''104'') (JStr ''0.087'') (JStr ''30'') True True order_ok) (Some 100)) =
     [PlaceOrder Sell (rnd (86 / 1000)),
      Telegram (TakeProfitNotice (rnd (87 / 1000)) 104 100 4), StoreWrite 104]
   \<and> quantize_qty default_config (rnd (87 / 1000)) = Inr (rnd (86 / 1000))
   \<and> QTY_STEP default_config \<le> rnd (87 / 1000) - rnd (86 / 1000)
   \<and> events (tick default_config pf_table
     (demo_env (JStr ''177'') (JNum 0) (JStr ''30'') True True order_ok) (Some 190)) =
     [PlaceOrder Buy (rnd (140 / 1000)), StoreWrite 177,
      Telegram (DipBuyNotice (rnd (141 / 1000)) 177 190 (change_pct 177 190) 177)]"
proof -
  have a: "order_accepted (demo_env p s u True True order_ok)" for p s u
    by (simp add: order_accepted_def demo_env_fields order_ok_def)
  have r: "QTY_STEP default_config \<le> rnd (87 / 1000) - rnd (86 / 1000)"
    by (simp add: default_config_fields double_0_087 double_0_086)
  have q: "quantize_qty default_config (rnd (87 / 1000)) = Inr (rnd (86 / 1000))"
    by (simp add: double_0_087 double_0_086 quantize_0_087)
  from r q show ?thesis
    by (simp add: tick_sell_0_087 tick_buy_177 a)
qed


section \<open>The claim about the balance reader\<close>

text \<open>
  Claim C9. On an answer with \<^verbatim>\<open>retCode\<close> 0 whose coin entries all name their coin,
  \<^verbatim>\<open>get_balances\<close> returns the \<^verbatim>\<open>walletBalance\<close> of the last SOL entry and the
  \<^verbatim>\<open>availableToWithdraw\<close> of the last USDT entry, over all accounts in order, each 0
  when there is no such entry: later entries overwrite, nothing is summed. A field that
  is absent, null, blank or does not parse reads as 0. In a tick the first number, times
  the price, decides whether there is a position, and the second is what the buy branch
  compares with \<^verbatim>\<open>ORDER_USDT\<close>.
\<close>

theorem get_balances_last_entry_wins:
  assumes "retCode resp = Some 0"
    and "\<forall>e \<in> set (all_coins (result_list resp)). e ''coin'' \<noteq> None"
  shows "get_balances pf (Some resp) =
           Inr (last_entry_field pf ''SOL'' ''walletBalance'' (all_coins (result_list resp)) 0,
                last_entry_field pf ''USDT'' ''availableToWithdraw''
                  (all_coins (result_list resp)) 0)
         \<and> (\<forall>d k. d k = None \<or> d k = Some JNull \<longrightarrow> safe_float pf (dict_get d k) = 0)
         \<and> (\<forall>s. strip s = [] \<or> pf (strip s) = None \<longrightarrow> safe_float pf (JStr s) = 0)
         \<and> (\<forall>cfg en st price base.
               wallet en = Some resp \<and> get_spot_price pf (tickers en) = Inr price
               \<and> get_base_price en st = Inr (Some base) \<and> base \<noteq> 0 \<longrightarrow>
               tick cfg pf en st =
                 (if MIN_POSITION_USDT cfg
                       \<le> position_value
                           (last_entry_field pf ''SOL'' ''walletBalance''
                              (all_coins (result_list resp)) 0) price
                  then sell_branch cfg en st price
                         (last_entry_field pf ''SOL'' ''walletBalance''
                            (all_coins (result_list resp)) 0)
                         base (change_pct price base)
                  else buy_branch cfg en st price
                         (last_entry_field pf ''USDT'' ''availableToWithdraw''
                            (all_coins (result_list resp)) 0)
                         base (change_pct price base)))"
proof -
  let ?sol = "last_entry_field pf ''SOL'' ''walletBalance'' (all_coins (result_list resp)) 0"
  let ?usdt = "last_entry_field pf ''USDT'' ''availableToWithdraw''
                 (all_coins (result_list resp)) 0"
  have b: "get_balances pf (Some resp) = Inr (?sol, ?usdt)"
    using assms(1) acct_loop_last [OF assms(2), of pf 0 0]
    by (simp add: get_balances_def)
  have a: "\<forall>d k. d k = None \<or> d k = Some JNull \<longrightarrow> safe_float pf (dict_get d k) = 0"
    by (auto simp: safe_float_def dict_get_def)
  have m: "\<forall>s. strip s = [] \<or> pf (strip s) = None \<longrightarrow> safe_float pf (JStr s) = 0"
    by (auto simp: safe_float_def Let_def)
  have t: "tick cfg pf en st =
             (if MIN_POSITION_USDT cfg \<le> position_value ?sol price
              then sell_branch cfg en st price ?sol base (change_pct price base)
              else buy_branch cfg en st price ?usdt base (change_pct price base))"
    if "wallet en = Some resp" "get_spot_price pf (tickers en) = Inr price"
      "get_base_price en st = Inr (Some base)" "base \<noteq> 0"
    for cfg en st price base
  proof -
    from that(1,2) b have "fetch pf en = Inr (price, ?sol, ?usdt)"
      by (simp add: fetch_def)
    from tick_with_base [OF this that(3,4)] show ?thesis .
  qed
  show ?thesis
  proof (intro conjI)
    show "get_balances pf (Some resp) = Inr (?sol, ?usdt)"
      by (rule b)
    show "\<forall>d k. d k = None \<or> d k = Some JNull \<longrightarrow> safe_float pf (dict_get d k) = 0"
      by (rule a)
    show "\<forall>s. strip s = [] \<or> pf (strip s) = None \<longrightarrow> safe_float pf (JStr s) = 0"
      by (rule m)
    show "\<forall>cfg en st price base.
            wallet en = Some resp \<and> get_spot_price pf (tickers en) = Inr price
            \<and> get_base_price en st = Inr (Some base) \<and> base \<noteq> 0 \<longrightarrow>
            tick cfg pf en st =
              (if MIN_POSITION_USDT cfg \<le> position_value ?sol price
               then sell_branch cfg en st price ?sol base (change_pct price base)
               else buy_branch cfg en st price ?usdt base (change_pct price base))"
    proof (intro allI impI, elim conjE)
      fix cfg en st price base
      assume "wallet en = Some resp" "get_spot_price pf (tickers en) = Inr price"
        "get_base_price en st = Inr (Some base)" "base \<noteq> 0"
      then show "tick cfg pf en st =
              (if MIN_POSITION_USDT cfg \<le> position_value ?sol price
               then sell_branch cfg en st price ?sol base (change_pct price base)
               else buy_branch cfg en st price ?usdt base (change_pct price base))"
        by (rule t)
    qed
  qed
qed

theorem get_balances_last_entry_wins_witness:
  "retCode two_account_wallet = Some 0
   \<and> get_balances pf_table (Some two_account_wallet) = Inr (1 / 4, 0)"
proof -
  have r: "retCode two_account_wallet = Some 0"
    by (simp add: two_account_wallet_def)
  have c: "\<forall>e \<in> set (all_coins (result_list two_account_wallet)). e ''coin'' \<noteq> None"
    by (simp add: two_account_wallet_def all_coins_def dict_of_def)
  show ?thesis
    using r get_balances_last_entry_wins [OF r c, of pf_table]
    by (simp add: two_account_wallet_def all_coins_def last_entry_field_def demo_defs)
qed

end
